theory Spec2Isabelle
  imports Main "HOL-Library.AList" "HOL-Library.Sublist"
begin

section \<open>Scenario configuration: the data model\<close>

text \<open>
  The development embeds \<^verbatim>\<open>taipy/core/config/scenario_config.py\<close>. The class
  \<^verbatim>\<open>ScenarioConfig\<close> is dynamically typed: \<^verbatim>\<open>_update\<close> stores whatever value the
  incoming document carries, and \<^verbatim>\<open>_to_dict\<close> hands out the stored objects themselves.
  The fields and the documents therefore hold values of one universe of Python values.
\<close>

subsection \<open>External collaborators\<close>

text \<open>
  Modelled from the spec: the external recurrence marker \<^verbatim>\<open>Frequency\<close>, an
  enumeration whose members are all truthy.
\<close>

datatype frequency = DAILY | WEEKLY | MONTHLY | QUARTERLY | YEARLY

text \<open>
  Modelled from the spec: the sibling configuration entities. They are compared and
  hashed by object identity, so every object carries its identity (\<open>dn_ref\<close>,
  \<open>task_ref\<close>, \<open>pipeline_ref\<close>) besides its identifier. A task exposes its ordered
  \<^verbatim>\<open>inputs\<close> and \<^verbatim>\<open>outputs\<close>, a pipeline its ordered \<^verbatim>\<open>tasks\<close>.
\<close>

record data_node_config =
  dn_ref :: nat
  dn_id :: string

record task_config =
  task_ref :: nat
  task_id :: string
  inputs :: "data_node_config list"
  outputs :: "data_node_config list"

record pipeline_config =
  pipeline_ref :: nat
  pipeline_id :: string
  pipeline_tasks :: "task_config list"

text \<open>
  Modelled from the spec: the section registry handed to \<^verbatim>\<open>_from_dict\<close>
  (\<^verbatim>\<open>config._sections[TaskConfig.name]\<close> and its two siblings), each section a
  dictionary from identifier to configuration object.
\<close>

record registry =
  task_configs :: "string \<rightharpoonup> task_config"
  data_node_configs_section :: "string \<rightharpoonup> data_node_config"
  pipeline_configs :: "string \<rightharpoonup> pipeline_config"

subsection \<open>Python values\<close>

text \<open>
  \<open>PDefaultDict\<close> is a \<^verbatim>\<open>defaultdict(list)\<close>, \<open>PDict\<close> a plain \<^verbatim>\<open>dict\<close>; both keep
  their items in insertion order with string keys. \<open>PCallable\<close> is an opaque comparator
  handle.
\<close>

datatype pyval =
    PNone
  | PBool bool
  | PInt int
  | PStr string
  | PList "pyval list"
  | PDict "(string \<times> pyval) list"
  | PDefaultDict "(string \<times> pyval) list"
  | PFreq frequency
  | PTask task_config
  | PDn data_node_config
  | PCallable nat

datatype error = InvalidConfigurationId | KeyError | TypeError | AttributeError

type_synonym document = "string \<rightharpoonup> pyval"

text \<open>Truth value testing (\<^verbatim>\<open>if x:\<close>).\<close>

fun truthy :: "pyval \<Rightarrow> bool" where
  "truthy PNone = False"
| "truthy (PBool b) = b"
| "truthy (PInt i) = (i \<noteq> 0)"
| "truthy (PStr s) = (s \<noteq> [])"
| "truthy (PList xs) = (xs \<noteq> [])"
| "truthy (PDict kvs) = (kvs \<noteq> [])"
| "truthy (PDefaultDict kvs) = (kvs \<noteq> [])"
| "truthy (PFreq f) = True"
| "truthy (PTask t) = True"
| "truthy (PDn d) = True"
| "truthy (PCallable c) = True"

text \<open>Iteration (\<^verbatim>\<open>for x in v\<close>): a string yields its characters, a dict its keys.\<close>

fun py_iter :: "pyval \<Rightarrow> error + pyval list" where
  "py_iter (PList xs) = Inr xs"
| "py_iter (PStr s) = Inr (map (\<lambda>c. PStr [c]) s)"
| "py_iter (PDict kvs) = Inr (map (\<lambda>kv. PStr (fst kv)) kvs)"
| "py_iter (PDefaultDict kvs) = Inr (map (\<lambda>kv. PStr (fst kv)) kvs)"
| "py_iter v = Inl TypeError"

text \<open>
  \<^verbatim>\<open>v.items()\<close>: only the two dictionary kinds have the method. A configuration object
  answers an unknown attribute with \<^verbatim>\<open>None\<close>, and calling that is a \<^verbatim>\<open>TypeError\<close>.
\<close>

fun py_items :: "pyval \<Rightarrow> error + (string \<times> pyval) list" where
  "py_items (PDict kvs) = Inr kvs"
| "py_items (PDefaultDict kvs) = Inr kvs"
| "py_items (PTask t) = Inl TypeError"
| "py_items (PDn d) = Inl TypeError"
| "py_items v = Inl AttributeError"

fun hashable :: "pyval \<Rightarrow> bool" where
  "hashable (PList xs) = False"
| "hashable (PDict kvs) = False"
| "hashable (PDefaultDict kvs) = False"
| "hashable v = True"

text \<open>\<^verbatim>\<open>d.pop(key, default)\<close> on a document: the value and the document without the key.\<close>

definition pop :: "string \<Rightarrow> pyval \<Rightarrow> document \<Rightarrow> pyval \<times> document" where
  "pop key dflt d = ((case d key of None \<Rightarrow> dflt | Some v \<Rightarrow> v), d(key := None))"

definition bind_err :: "error + 'a \<Rightarrow> ('a \<Rightarrow> error + 'b) \<Rightarrow> error + 'b" where
  "bind_err m f = (case m of Inl e \<Rightarrow> Inl e | Inr x \<Rightarrow> f x)"

subsection \<open>The class\<close>

definition PIPELINES_KEY :: string where "PIPELINES_KEY = ''pipelines''"
definition TASKS_KEY :: string where "TASKS_KEY = ''tasks''"
definition ADDITIONAL_DATA_NODES_KEY :: string where
  "ADDITIONAL_DATA_NODES_KEY = ''additional_data_nodes''"
definition FREQUENCY_KEY :: string where "FREQUENCY_KEY = ''frequency''"
definition COMPARATOR_KEY :: string where "COMPARATOR_KEY = ''comparators''"

text \<open>Modelled from the spec: the key \<^verbatim>\<open>_ID_KEY\<close> of the base class \<^verbatim>\<open>Section\<close>.\<close>

definition ID_KEY :: string where "ID_KEY = ''id''"

text \<open>
  The fields \<^verbatim>\<open>id\<close>, \<^verbatim>\<open>_tasks\<close>, \<^verbatim>\<open>_additional_data_nodes\<close>, \<^verbatim>\<open>frequency\<close>,
  \<^verbatim>\<open>comparators\<close> and \<^verbatim>\<open>_properties\<close> of an instance.
\<close>

record scenario_config =
  scenario_id :: string
  tasks :: pyval
  additional_data_nodes :: pyval
  frequency :: pyval
  comparators :: pyval
  raw_properties :: document

subsection \<open>Construction\<close>

text \<open>
  \<^verbatim>\<open>self._tasks = [tasks] if isinstance(tasks, TaskConfig) else copy(tasks)\<close> under
  \<^verbatim>\<open>if tasks:\<close>, else the empty list. A shallow copy is the value itself.
\<close>

definition init_tasks :: "pyval \<Rightarrow> pyval" where
  "init_tasks ts =
     (if truthy ts then (case ts of PTask t \<Rightarrow> PList [ts] | _ \<Rightarrow> ts) else PList [])"

definition init_additional_data_nodes :: "pyval \<Rightarrow> pyval" where
  "init_additional_data_nodes ds =
     (if truthy ds then (case ds of PDn d \<Rightarrow> PList [ds] | _ \<Rightarrow> ds) else PList [])"

text \<open>
  The loop over \<^verbatim>\<open>comparators.items()\<close>: the key is validated first, then the list at
  the key (created empty when absent) is extended by a list value or appended a single
  value. The validation rule \<^verbatim>\<open>_validate_id\<close> is external and taken as the parameter
  \<open>valid\<close>: it returns its argument or raises.
\<close>

fun added_comparators :: "pyval \<Rightarrow> pyval list" where
  "added_comparators (PList ys) = ys"
| "added_comparators v = [v]"

fun init_comparators ::
  "(string \<Rightarrow> bool) \<Rightarrow> (string \<times> pyval list) list \<Rightarrow> (string \<times> pyval) list
     \<Rightarrow> error + (string \<times> pyval list) list" where
  "init_comparators valid acc [] = Inr acc"
| "init_comparators valid acc ((k, v) # kvs) =
     (if valid k then
        (let cur = (case map_of acc k of None \<Rightarrow> [] | Some xs \<Rightarrow> xs)
         in init_comparators valid (AList.update k (cur @ added_comparators v) acc) kvs)
      else Inl InvalidConfigurationId)"

text \<open>
  \<^verbatim>\<open>__init__\<close>. Its last statement is the base class constructor, modelled from the
  spec: the identifier is validated and the keyword arguments become the property bag.
\<close>

definition init ::
  "(string \<Rightarrow> bool) \<Rightarrow> string \<Rightarrow> pyval \<Rightarrow> pyval \<Rightarrow> pyval \<Rightarrow> pyval \<Rightarrow> document
     \<Rightarrow> error + scenario_config" where
  "init valid i ts ds freq comps properties =
     bind_err
       (if truthy comps
        then bind_err (py_items comps) (init_comparators valid [])
        else Inr [])
       (\<lambda>cs.
          if valid i
          then Inr \<lparr> scenario_id = i,
                     tasks = init_tasks ts,
                     additional_data_nodes = init_additional_data_nodes ds,
                     frequency = freq,
                     comparators = PDefaultDict (map (\<lambda>kv. (fst kv, PList (snd kv))) cs),
                     raw_properties = properties \<rparr>
          else Inl InvalidConfigurationId)"

subsection \<open>Reset, serialization, update\<close>

definition clean :: "scenario_config \<Rightarrow> scenario_config" where
  "clean self =
     self\<lparr> tasks := PList [], additional_data_nodes := PList [], frequency := PNone,
           comparators := PDict [], raw_properties := Map.empty \<rparr>"

definition to_dict :: "scenario_config \<Rightarrow> document" where
  "to_dict self =
     [COMPARATOR_KEY \<mapsto> comparators self,
      TASKS_KEY \<mapsto> tasks self,
      ADDITIONAL_DATA_NODES_KEY \<mapsto> additional_data_nodes self,
      FREQUENCY_KEY \<mapsto> frequency self] ++ raw_properties self"

text \<open>
  Modelled from the spec: the read accessor \<^verbatim>\<open>properties\<close> of the base class, which
  resolves the placeholders of every value through the external template resolver,
  the parameter \<open>replace_templates\<close>.
\<close>

definition properties :: "(pyval \<Rightarrow> pyval) \<Rightarrow> scenario_config \<Rightarrow> document" where
  "properties replace_templates self =
     (\<lambda>k. map_option replace_templates (raw_properties self k))"

text \<open>
  \<^verbatim>\<open>_update\<close> mutates the instance and the incoming document; both are returned. An
  instance is always truthy, so \<^verbatim>\<open>and default_section\<close> tests that one was supplied.
\<close>

definition update ::
  "(pyval \<Rightarrow> pyval) \<Rightarrow> scenario_config \<Rightarrow> document \<Rightarrow> scenario_config option
     \<Rightarrow> scenario_config \<times> document" where
  "update replace_templates self as_dict default_section =
     (let (t, d1) = pop TASKS_KEY (tasks self) as_dict;
          t = (case default_section of
                 Some dflt \<Rightarrow> if t = PNone then tasks dflt else t | None \<Rightarrow> t);
          (a, d2) = pop ADDITIONAL_DATA_NODES_KEY (additional_data_nodes self) d1;
          a = (case default_section of
                 Some dflt \<Rightarrow> if a = PNone then additional_data_nodes dflt else a | None \<Rightarrow> a);
          (f, d3) = pop FREQUENCY_KEY (frequency self) d2;
          f = (case default_section of
                 Some dflt \<Rightarrow> if f = PNone then frequency dflt else f | None \<Rightarrow> f);
          (c, d4) = pop COMPARATOR_KEY (comparators self) d3;
          c = (case default_section of
                 Some dflt \<Rightarrow> if c = PNone then comparators dflt else c | None \<Rightarrow> c);
          p = raw_properties self ++ d4;
          p = (case default_section of
                 Some dflt \<Rightarrow> properties replace_templates dflt ++ p | None \<Rightarrow> p)
      in (self\<lparr> tasks := t, additional_data_nodes := a, frequency := f, comparators := c,
                raw_properties := p \<rparr>, d4))"

subsection \<open>Comparator mutation\<close>

text \<open>
  \<^verbatim>\<open>container[key]\<close>: a \<^verbatim>\<open>defaultdict(list)\<close> answers an absent key with a new empty
  list that it also stores; a plain dict raises \<^verbatim>\<open>KeyError\<close>; the other values of the
  universe do not take a string subscript. The container is returned with the value.
\<close>

fun getitem :: "pyval \<Rightarrow> string \<Rightarrow> error + (pyval \<times> pyval)" where
  "getitem (PDefaultDict kvs) k =
     (case map_of kvs k of
        Some v \<Rightarrow> Inr (v, PDefaultDict kvs)
      | None \<Rightarrow> Inr (PList [], PDefaultDict (AList.update k (PList []) kvs)))"
| "getitem (PDict kvs) k =
     (case map_of kvs k of Some v \<Rightarrow> Inr (v, PDict kvs) | None \<Rightarrow> Inl KeyError)"
| "getitem v k = Inl TypeError"

text \<open>The entry at \<open>k\<close> after its list has been mutated in place.\<close>

fun setitem :: "pyval \<Rightarrow> string \<Rightarrow> pyval \<Rightarrow> pyval" where
  "setitem (PDefaultDict kvs) k v = PDefaultDict (AList.update k v kvs)"
| "setitem (PDict kvs) k v = PDict (AList.update k v kvs)"
| "setitem c k v = c"

text \<open>\<^verbatim>\<open>key in container\<close>.\<close>

fun contains :: "pyval \<Rightarrow> string \<Rightarrow> error + bool" where
  "contains (PDefaultDict kvs) k = Inr (map_of kvs k \<noteq> None)"
| "contains (PDict kvs) k = Inr (map_of kvs k \<noteq> None)"
| "contains (PList xs) k = Inr (PStr k \<in> set xs)"
| "contains (PStr s) k = Inr (sublist k s)"
| "contains v k = Inl TypeError"

text \<open>\<^verbatim>\<open>del container[key]\<close>.\<close>

fun delitem :: "pyval \<Rightarrow> string \<Rightarrow> error + pyval" where
  "delitem (PDefaultDict kvs) k =
     (if map_of kvs k \<noteq> None then Inr (PDefaultDict (AList.delete k kvs)) else Inl KeyError)"
| "delitem (PDict kvs) k =
     (if map_of kvs k \<noteq> None then Inr (PDict (AList.delete k kvs)) else Inl KeyError)"
| "delitem v k = Inl TypeError"

text \<open>
  \<^verbatim>\<open>self.comparators[dn_config_id].append(comparator)\<close>. Only a list has
  \<^verbatim>\<open>append\<close>; on a configuration object the attribute reads as \<^verbatim>\<open>None\<close>.
\<close>

definition add_comparator :: "scenario_config \<Rightarrow> string \<Rightarrow> pyval \<Rightarrow> error + scenario_config" where
  "add_comparator self dn_config_id comparator =
     bind_err (getitem (comparators self) dn_config_id)
       (\<lambda>(v, c). case v of
                   PList xs \<Rightarrow>
                     Inr (self\<lparr>comparators := setitem c dn_config_id (PList (xs @ [comparator]))\<rparr>)
                 | PTask t \<Rightarrow> Inl TypeError
                 | PDn d \<Rightarrow> Inl TypeError
                 | _ \<Rightarrow> Inl AttributeError)"

definition delete_comparator :: "scenario_config \<Rightarrow> string \<Rightarrow> error + scenario_config" where
  "delete_comparator self dn_config_id =
     bind_err (contains (comparators self) dn_config_id)
       (\<lambda>present.
          if present
          then bind_err (delitem (comparators self) dn_config_id)
                 (\<lambda>c. Inr (self\<lparr>comparators := c\<rparr>))
          else Inr self)"

text \<open>Reading \<^verbatim>\<open>self.comparators[key]\<close>, which may store an empty list.\<close>

definition read_comparators :: "scenario_config \<Rightarrow> string \<Rightarrow> error + (pyval \<times> scenario_config)" where
  "read_comparators self key =
     bind_err (getitem (comparators self) key) (\<lambda>(v, c). Inr (v, self\<lparr>comparators := c\<rparr>))"

subsection \<open>Deserialization and migration\<close>

text \<open>
  \<^verbatim>\<open>section.get(key, None)\<close> on a section of the registry. The keys of a section are
  strings; any other hashable key is simply not found, an unhashable one raises.
\<close>

definition section_get :: "(string \<rightharpoonup> 'a) \<Rightarrow> pyval \<Rightarrow> error + 'a option" where
  "section_get sec key =
     (case key of
        PStr s \<Rightarrow> Inr (sec s)
      | _ \<Rightarrow> if hashable key then Inr None else Inl TypeError)"

text \<open>
  The three resolution loops of \<^verbatim>\<open>_from_dict\<close> share one shape: every listed key is
  looked up, and what a found configuration contributes (\<open>entries\<close>) is added at the end
  of the list built so far.
\<close>

fun resolve_loop ::
  "(string \<rightharpoonup> 'a) \<Rightarrow> ('a \<Rightarrow> pyval list) \<Rightarrow> pyval list \<Rightarrow> pyval list \<Rightarrow> error + pyval list" where
  "resolve_loop sec entries acc [] = Inr acc"
| "resolve_loop sec entries acc (key # keys) =
     bind_err (section_get sec key)
       (\<lambda>found. resolve_loop sec entries
                  (case found of Some cfg \<Rightarrow> acc @ entries cfg | None \<Rightarrow> acc) keys)"

definition resolve_all ::
  "(string \<rightharpoonup> 'a) \<Rightarrow> ('a \<Rightarrow> pyval list) \<Rightarrow> pyval \<Rightarrow> error + pyval list" where
  "resolve_all sec entries ids =
     (if truthy ids then bind_err (py_iter ids) (resolve_loop sec entries []) else Inr [])"

text \<open>
  The call \<^verbatim>\<open>ScenarioConfig(id=id, tasks=tasks, ..., **as_dict)\<close> that ends
  \<^verbatim>\<open>_from_dict\<close>. The keys of the document are bound as keyword arguments, so a key
  that names a parameter of \<^verbatim>\<open>__init__\<close>, the receiver \<^verbatim>\<open>self\<close> included, gives the
  parameter a second value: a \<^verbatim>\<open>TypeError\<close>, raised before the body runs.
\<close>

definition init_parameters :: "string list" where
  "init_parameters =
     [''self'', ''id'', ''tasks'', ''additional_data_nodes'', ''frequency'', ''comparators'']"

definition construct ::
  "(string \<Rightarrow> bool) \<Rightarrow> string \<Rightarrow> pyval \<Rightarrow> pyval \<Rightarrow> pyval \<Rightarrow> pyval \<Rightarrow> document
     \<Rightarrow> error + scenario_config" where
  "construct valid i ts ds freq comps kwargs =
     (if list_ex (\<lambda>k. kwargs k \<noteq> None) init_parameters
      then Inl TypeError
      else init valid i ts ds freq comps kwargs)"

text \<open>
  \<^verbatim>\<open>_from_dict\<close> mutates the document it is given: the result carries the instance and
  the document as the call leaves it.
\<close>

definition from_dict ::
  "(string \<Rightarrow> bool) \<Rightarrow> document \<Rightarrow> string \<Rightarrow> registry \<Rightarrow> error + (scenario_config \<times> document)" where
  "from_dict valid as_dict i config =
     (let d0 = snd (pop ID_KEY (PStr i) as_dict) in
      bind_err
        (if d0 TASKS_KEY \<noteq> None \<or> d0 ADDITIONAL_DATA_NODES_KEY \<noteq> None then
           (let (task_ids, d1) = pop TASKS_KEY PNone d0 in
            bind_err (resolve_all (task_configs config) (\<lambda>tc. [PTask tc]) task_ids)
              (\<lambda>ts. let (additional_data_node_ids, d2) = pop ADDITIONAL_DATA_NODES_KEY PNone d1 in
                 bind_err (resolve_all (data_node_configs_section config) (\<lambda>dc. [PDn dc])
                             additional_data_node_ids)
                   (\<lambda>ds. Inr (ts, ds, d2))))
         else
           (let (pipeline_ids, d1) = pop PIPELINES_KEY PNone d0 in
            bind_err (resolve_all (pipeline_configs config)
                        (\<lambda>pc. map PTask (pipeline_tasks pc)) pipeline_ids)
              (\<lambda>ts. Inr (ts, [], d1))))
        (\<lambda>(ts, ds, d).
           let (freq, d') = pop FREQUENCY_KEY PNone d;
               (comps, d'') = pop COMPARATOR_KEY (PDict []) d'
           in bind_err (construct valid i (PList ts) (PList ds) freq comps d'')
                (\<lambda>self. Inr (self, d''))))"

subsection \<open>The derived data-node set\<close>

text \<open>\<^verbatim>\<open>set(v)\<close>: the elements of an iterable, which must be hashable.\<close>

definition py_set :: "pyval \<Rightarrow> error + pyval set" where
  "py_set v =
     bind_err (py_iter v) (\<lambda>xs. if list_all hashable xs then Inr (set xs) else Inl TypeError)"

text \<open>
  The loop over \<^verbatim>\<open>self._tasks\<close>. Only a task configuration has \<^verbatim>\<open>inputs\<close> and
  \<^verbatim>\<open>outputs\<close>; a data-node configuration answers an unknown attribute with \<^verbatim>\<open>None\<close>,
  which \<^verbatim>\<open>set.update\<close> rejects.
\<close>

fun update_with_tasks :: "pyval set \<Rightarrow> pyval list \<Rightarrow> error + pyval set" where
  "update_with_tasks acc [] = Inr acc"
| "update_with_tasks acc (t # ts) =
     (case t of
        PTask tc \<Rightarrow> update_with_tasks (acc \<union> set (map PDn (inputs tc)) \<union> set (map PDn (outputs tc))) ts
      | PDn dc \<Rightarrow> Inl TypeError
      | _ \<Rightarrow> Inl AttributeError)"

definition get_all_unique_data_nodes :: "scenario_config \<Rightarrow> error + pyval set" where
  "get_all_unique_data_nodes self =
     bind_err (py_set (additional_data_nodes self))
       (\<lambda>data_node_configs. bind_err (py_iter (tasks self)) (update_with_tasks data_node_configs))"

text \<open>The two accessors; each returns the set together with the instance as it leaves it.\<close>

definition data_node_configs :: "scenario_config \<Rightarrow> error + (pyval set \<times> scenario_config)" where
  "data_node_configs self = bind_err (get_all_unique_data_nodes self) (\<lambda>s. Inr (s, self))"

definition data_nodes :: "scenario_config \<Rightarrow> error + (pyval set \<times> scenario_config)" where
  "data_nodes self = bind_err (get_all_unique_data_nodes self) (\<lambda>s. Inr (s, self))"

section \<open>Notions used in the statements\<close>

definition list_typed :: "pyval \<Rightarrow> bool" where
  "list_typed v = (case v of PList xs \<Rightarrow> True | _ \<Rightarrow> False)"

text \<open>
  The merge rule of the four structured fields, in the words of the specification: the
  incoming value if the key is present, otherwise the current one; a null result falls
  back to the field of a supplied default section.
\<close>

definition spec_merged_field :: "pyval option \<Rightarrow> pyval \<Rightarrow> pyval option \<Rightarrow> pyval" where
  "spec_merged_field incoming current fallback =
     (let v = (case incoming of Some x \<Rightarrow> x | None \<Rightarrow> current)
      in case fallback of Some d \<Rightarrow> (if v = PNone then d else v) | None \<Rightarrow> v)"

text \<open>The keys \<^verbatim>\<open>_update\<close> reserves for the structured fields, and a document without them.\<close>

definition update_reserved_keys :: "string set" where
  "update_reserved_keys =
     {TASKS_KEY, ADDITIONAL_DATA_NODES_KEY, FREQUENCY_KEY, COMPARATOR_KEY}"

definition non_reserved :: "document \<Rightarrow> document" where
  "non_reserved d = (\<lambda>k. if k \<in> update_reserved_keys then None else d k)"

text \<open>
  The constructor arguments its signature admits for \<^verbatim>\<open>tasks\<close> and for
  \<^verbatim>\<open>additional_data_nodes\<close>: nothing (or anything falsy), one configuration, or a list.
\<close>

definition tasks_argument :: "pyval \<Rightarrow> bool" where
  "tasks_argument v = (case v of PTask t \<Rightarrow> True | PList xs \<Rightarrow> True | _ \<Rightarrow> \<not> truthy v)"

definition additional_data_nodes_argument :: "pyval \<Rightarrow> bool" where
  "additional_data_nodes_argument v =
     (case v of PDn d \<Rightarrow> True | PList xs \<Rightarrow> True | _ \<Rightarrow> \<not> truthy v)"

text \<open>
  A comparators argument the constructor accepts: falsy, or a dictionary all of whose
  keys pass the validation rule.
\<close>

definition comparators_argument :: "(string \<Rightarrow> bool) \<Rightarrow> pyval \<Rightarrow> bool" where
  "comparators_argument valid v =
     (if truthy v
      then (case py_items v of Inr kvs \<Rightarrow> list_all (\<lambda>kv. valid (fst kv)) kvs | Inl e \<Rightarrow> False)
      else True)"

text \<open>The comparators value \<^verbatim>\<open>_from_dict\<close> passes on: the document's, or an empty dict.\<close>

definition document_comparators :: "document \<Rightarrow> pyval" where
  "document_comparators d = (case d COMPARATOR_KEY of None \<Rightarrow> PDict [] | Some v \<Rightarrow> v)"

text \<open>A document entry that is absent, or lists exactly the identifiers \<open>ids\<close>.\<close>

fun id_list :: "pyval option \<Rightarrow> string list \<Rightarrow> bool" where
  "id_list None ids = (ids = [])"
| "id_list (Some v) ids = (v = PList (map PStr ids))"

text \<open>The configurations that a list of identifiers resolves to, in the order of the list.\<close>

definition resolved :: "(string \<rightharpoonup> 'a) \<Rightarrow> string list \<Rightarrow> 'a list" where
  "resolved sec ids = List.map_filter sec ids"

text \<open>Every key of the comparators mapping passes the validation rule.\<close>

definition comparator_keys_valid :: "(string \<Rightarrow> bool) \<Rightarrow> pyval \<Rightarrow> bool" where
  "comparator_keys_valid valid c =
     (case py_items c of
        Inr kvs \<Rightarrow> list_all (\<lambda>kv. valid (fst kv)) kvs
      | Inl e \<Rightarrow> True)"

text \<open>
  An incoming entry under which \<^verbatim>\<open>_update\<close> keeps a field a list: no entry, a list, or
  null together with a list as the fallback of a supplied default section.
\<close>

definition keeps_list :: "pyval option \<Rightarrow> pyval option \<Rightarrow> bool" where
  "keeps_list incoming fallback =
     (case incoming of
        None \<Rightarrow> True
      | Some PNone \<Rightarrow> (case fallback of Some d \<Rightarrow> list_typed d | None \<Rightarrow> False)
      | Some v \<Rightarrow> list_typed v)"

text \<open>
  The comparators mapping as the constructor builds it: a \<^verbatim>\<open>defaultdict(list)\<close> whose
  values are lists.
\<close>

definition list_defaulting :: "pyval \<Rightarrow> bool" where
  "list_defaulting c =
     (case c of PDefaultDict kvs \<Rightarrow> list_all (\<lambda>kv. list_typed (snd kv)) kvs | _ \<Rightarrow> False)"

text \<open>The list stored at a key of a mapping, empty when the key is absent.\<close>

definition comparators_at :: "pyval \<Rightarrow> string \<Rightarrow> pyval list" where
  "comparators_at c key =
     (case py_items c of
        Inr kvs \<Rightarrow> (case map_of kvs key of Some (PList xs) \<Rightarrow> xs | _ \<Rightarrow> [])
      | Inl e \<Rightarrow> [])"

text \<open>
  Modelled from the spec: the serializer outside this file, which writes a task or
  data-node entry of a document as its reference identity, the identifier under which
  the registry holds it.
\<close>

fun reference_identity :: "pyval \<Rightarrow> pyval" where
  "reference_identity (PTask t) = PStr (task_id t)"
| "reference_identity (PDn d) = PStr (dn_id d)"
| "reference_identity v = v"

fun serialize_entries :: "pyval \<Rightarrow> pyval" where
  "serialize_entries (PList xs) = PList (map reference_identity xs)"
| "serialize_entries v = v"

definition serialize_references :: "document \<Rightarrow> document" where
  "serialize_references d =
     (\<lambda>k. if k = TASKS_KEY \<or> k = ADDITIONAL_DATA_NODES_KEY
          then map_option serialize_entries (d k) else d k)"

text \<open>The keys \<^verbatim>\<open>_from_dict\<close> removes from a document of the new and of the legacy shape.\<close>

definition new_shape :: "document \<Rightarrow> bool" where
  "new_shape d = (d TASKS_KEY \<noteq> None \<or> d ADDITIONAL_DATA_NODES_KEY \<noteq> None)"

definition popped_keys :: "document \<Rightarrow> string set" where
  "popped_keys d =
     (if new_shape d
      then {ID_KEY, TASKS_KEY, ADDITIONAL_DATA_NODES_KEY, FREQUENCY_KEY, COMPARATOR_KEY}
      else {ID_KEY, PIPELINES_KEY, FREQUENCY_KEY, COMPARATOR_KEY})"

definition without_keys :: "document \<Rightarrow> string set \<Rightarrow> document" where
  "without_keys d ks = (\<lambda>k. if k \<in> ks then None else d k)"

subsection \<open>Concrete objects for the evaluations\<close>

text \<open>A sample validation rule: an identifier is not empty and holds no blank.\<close>

definition sample_valid :: "string \<Rightarrow> bool" where
  "sample_valid s = (s \<noteq> [] \<and> CHR '' '' \<notin> set s)"

definition dn_A :: data_node_config where "dn_A = \<lparr> dn_ref = 1, dn_id = ''A'' \<rparr>"
definition dn_B :: data_node_config where "dn_B = \<lparr> dn_ref = 2, dn_id = ''B'' \<rparr>"
definition dn_C :: data_node_config where "dn_C = \<lparr> dn_ref = 3, dn_id = ''C'' \<rparr>"

definition task_T1 :: task_config where
  "task_T1 = \<lparr> task_ref = 11, task_id = ''T1'', inputs = [], outputs = [dn_A] \<rparr>"

definition task_T2 :: task_config where
  "task_T2 = \<lparr> task_ref = 12, task_id = ''T2'', inputs = [dn_A], outputs = [dn_B] \<rparr>"

definition pipeline_P1 :: pipeline_config where
  "pipeline_P1 = \<lparr> pipeline_ref = 21, pipeline_id = ''P1'', pipeline_tasks = [task_T1, task_T2] \<rparr>"

definition sample_registry :: registry where
  "sample_registry =
     \<lparr> task_configs = [''T1'' \<mapsto> task_T1, ''T2'' \<mapsto> task_T2],
       data_node_configs_section = [''A'' \<mapsto> dn_A, ''B'' \<mapsto> dn_B, ''C'' \<mapsto> dn_C],
       pipeline_configs = [''P1'' \<mapsto> pipeline_P1] \<rparr>"

text \<open>
  The instance \<^verbatim>\<open>ScenarioConfig("s", [T1, T2], C, comparators={"A": f1}, b=2, c=2)\<close>,
  as the constructor leaves it.
\<close>

definition sample_config :: scenario_config where
  "sample_config =
     \<lparr> scenario_id = ''s'',
       tasks = PList [PTask task_T1, PTask task_T2],
       additional_data_nodes = PList [PDn dn_C],
       frequency = PNone,
       comparators = PDefaultDict [(''A'', PList [PCallable 1])],
       raw_properties = [''b'' \<mapsto> PInt 2, ''c'' \<mapsto> PInt 2] \<rparr>"

text \<open>A default section with a weekly frequency and three properties.\<close>

definition sample_default :: scenario_config where
  "sample_default =
     \<lparr> scenario_id = ''default'',
       tasks = PList [],
       additional_data_nodes = PList [],
       frequency = PFreq WEEKLY,
       comparators = PDefaultDict [],
       raw_properties = [''a'' \<mapsto> PInt 1, ''b'' \<mapsto> PInt 1, ''c'' \<mapsto> PInt 1] \<rparr>"

text \<open>A document that carries an explicit null for both reference lists.\<close>

definition null_lists :: document where
  "null_lists = [TASKS_KEY \<mapsto> PNone, ADDITIONAL_DATA_NODES_KEY \<mapsto> PNone]"

text \<open>A document that carries comparators only, and the instance \<^verbatim>\<open>_from_dict\<close> builds from it.\<close>

definition comparators_only :: document where
  "comparators_only = [COMPARATOR_KEY \<mapsto> PDict [(''B'', PList [PCallable 2])]]"

definition sample_loaded :: scenario_config where
  "sample_loaded =
     \<lparr> scenario_id = ''s'', tasks = PList [], additional_data_nodes = PList [],
       frequency = PNone, comparators = PDefaultDict [(''B'', PList [PCallable 2])],
       raw_properties = Map.empty \<rparr>"

text \<open>
  Three documents: one of the legacy shape, one of the new shape with identifiers the
  registry does not hold, and one that has both a tasks and a pipelines key, with what
  \<^verbatim>\<open>_from_dict\<close> leaves of it and builds from it.
\<close>

definition legacy_document :: document where
  "legacy_document = [PIPELINES_KEY \<mapsto> PList [PStr ''P0'', PStr ''P1'']]"

definition new_document :: document where
  "new_document =
     [TASKS_KEY \<mapsto> PList [PStr ''T1'', PStr ''gone'', PStr ''T2''],
      ADDITIONAL_DATA_NODES_KEY \<mapsto> PList [PStr ''nope'', PStr ''C'']]"

definition mixed_document :: document where
  "mixed_document =
     [ID_KEY \<mapsto> PStr ''s'', TASKS_KEY \<mapsto> PList [PStr ''T1''],
      PIPELINES_KEY \<mapsto> PList [PStr ''P1''], ''x'' \<mapsto> PInt 5]"

definition mixed_rest :: document where
  "mixed_rest = [PIPELINES_KEY \<mapsto> PList [PStr ''P1''], ''x'' \<mapsto> PInt 5]"

definition mixed_loaded :: scenario_config where
  "mixed_loaded =
     \<lparr> scenario_id = ''s'', tasks = PList [PTask task_T1], additional_data_nodes = PList [],
       frequency = PNone, comparators = PDefaultDict [], raw_properties = mixed_rest \<rparr>"

section \<open>Basic facts\<close>

lemmas key_defs =
  PIPELINES_KEY_def TASKS_KEY_def ADDITIONAL_DATA_NODES_KEY_def FREQUENCY_KEY_def
  COMPARATOR_KEY_def ID_KEY_def

lemma sample_config_constructed:
  "init sample_valid ''s'' (PList [PTask task_T1, PTask task_T2]) (PDn dn_C) PNone
     (PDict [(''A'', PCallable 1)]) [''b'' \<mapsto> PInt 2, ''c'' \<mapsto> PInt 2] = Inr sample_config"
  by (simp add: init_def bind_err_def sample_valid_def sample_config_def init_tasks_def
      init_additional_data_nodes_def)

lemma bind_err_simps [simp]:
  "bind_err (Inl e) f = Inl e" "bind_err (Inr x) f = f x"
  by (simp_all add: bind_err_def)

lemma list_typed_iff: "list_typed v \<longleftrightarrow> (\<exists>xs. v = PList xs)"
  by (cases v) (simp_all add: list_typed_def)

lemma init_fields:
  assumes "init valid i ts ds f c p = Inr self"
  shows "tasks self = init_tasks ts" "additional_data_nodes self = init_additional_data_nodes ds"
        "frequency self = f" "raw_properties self = p" "scenario_id self = i" "valid i"
        "\<exists>cs. comparators self = PDefaultDict (map (\<lambda>kv. (fst kv, PList (snd kv))) cs)
              \<and> (if truthy c then bind_err (py_items c) (init_comparators valid []) else Inr []) = Inr cs"
  using assms by (auto simp: init_def bind_err_def split: sum.splits if_splits)

lemma update_fields:
  "tasks (fst (update rt self as_dict dflt))
     = spec_merged_field (as_dict TASKS_KEY) (tasks self) (map_option tasks dflt)"
  "additional_data_nodes (fst (update rt self as_dict dflt))
     = spec_merged_field (as_dict ADDITIONAL_DATA_NODES_KEY) (additional_data_nodes self)
         (map_option additional_data_nodes dflt)"
  "comparators (fst (update rt self as_dict dflt))
     = spec_merged_field (as_dict COMPARATOR_KEY) (comparators self)
         (map_option comparators dflt)"
  by (simp_all add: update_def pop_def spec_merged_field_def key_defs Let_def
      split: option.splits prod.splits)

subsection \<open>Association lists\<close>

lemma set_update_subset: "set (AList.update k v al) \<subseteq> insert (k, v) (set al)"
  by (induction al) auto

lemma list_all_update:
  "P (k, v) \<Longrightarrow> list_all P al \<Longrightarrow> list_all P (AList.update k v al)"
  using set_update_subset [of k v al] by (auto simp: list_all_iff)

lemma list_all_delete: "list_all P al \<Longrightarrow> list_all P (AList.delete k al)"
  by (auto simp: list_all_iff AList.delete_eq)

lemma key_in_update: "k \<in> fst ` set (AList.update k v al)"
  by (induction al) auto

lemma keys_update_iff:
  assumes "list_all (\<lambda>kv. valid (fst kv)) al"
  shows "list_all (\<lambda>kv. valid (fst kv)) (AList.update k v al) \<longleftrightarrow> valid k"
proof
  assume "list_all (\<lambda>kv. valid (fst kv)) (AList.update k v al)"
  then show "valid k"
    using key_in_update [of k v al] by (auto simp: list_all_iff)
next
  assume "valid k"
  then show "list_all (\<lambda>kv. valid (fst kv)) (AList.update k v al)"
    using assms by (simp add: list_all_update)
qed

subsection \<open>The constructor\<close>

lemma init_comparators_keys:
  "init_comparators valid acc kvs = Inr cs \<Longrightarrow> list_all (\<lambda>kv. valid (fst kv)) acc
     \<Longrightarrow> list_all (\<lambda>kv. valid (fst kv)) cs"
proof (induction kvs arbitrary: acc)
  case Nil
  then show ?case by simp
next
  case (Cons kv kvs)
  obtain k v where kv: "kv = (k, v)" by (cases kv)
  from Cons.prems kv have ok: "valid k" by (auto split: if_splits)
  show ?case
    using Cons.prems kv ok
    by (auto simp: Let_def intro!: Cons.IH list_all_update)
qed

lemma init_comparators_succeeds:
  "list_all (\<lambda>kv. valid (fst kv)) kvs \<Longrightarrow> \<exists>cs. init_comparators valid acc kvs = Inr cs"
  by (induction kvs arbitrary: acc) (auto simp: Let_def)

lemma init_succeeds:
  assumes "valid i" "comparators_argument valid c"
  shows "\<exists>self. init valid i ts ds f c p = Inr self"
proof (cases "truthy c")
  case False
  then show ?thesis using assms by (simp add: init_def)
next
  case True
  then obtain kvs where k: "py_items c = Inr kvs" "list_all (\<lambda>kv. valid (fst kv)) kvs"
    using assms(2) by (auto simp: comparators_argument_def split: sum.splits)
  obtain cs where "init_comparators valid [] kvs = Inr cs"
    using init_comparators_succeeds [OF k(2)] by blast
  then show ?thesis using True k assms(1) by (simp add: init_def)
qed

lemma init_keys_valid:
  assumes "init valid i ts ds f c p = Inr self"
  shows "comparator_keys_valid valid (comparators self)"
proof -
  obtain cs where cs: "comparators self = PDefaultDict (map (\<lambda>kv. (fst kv, PList (snd kv))) cs)"
    "(if truthy c then bind_err (py_items c) (init_comparators valid []) else Inr []) = Inr cs"
    using init_fields(7) [OF assms] by blast
  have "list_all (\<lambda>kv. valid (fst kv)) cs"
  proof (cases "truthy c")
    case False
    then show ?thesis using cs(2) by simp
  next
    case True
    then obtain kvs where "init_comparators valid [] kvs = Inr cs"
      using cs(2) by (auto simp: bind_err_def split: sum.splits)
    then show ?thesis using init_comparators_keys [of valid "[]" kvs cs] by simp
  qed
  then show ?thesis
    by (simp add: comparator_keys_valid_def cs(1) list_all_iff)
qed

lemma init_list_defaulting:
  assumes "init valid i ts ds f c p = Inr self"
  shows "list_defaulting (comparators self)"
  using init_fields(7) [OF assms] by (auto simp: list_defaulting_def list_all_iff list_typed_def)

lemma init_tasks_list_typed: "tasks_argument ts \<Longrightarrow>
   init_tasks ts = (case ts of PTask t \<Rightarrow> PList [PTask t] | PList xs \<Rightarrow> PList xs | _ \<Rightarrow> PList [])"
  by (cases ts) (auto simp: tasks_argument_def init_tasks_def)

lemma init_additional_data_nodes_list_typed:
  "additional_data_nodes_argument ds \<Longrightarrow>
   init_additional_data_nodes ds
     = (case ds of PDn d \<Rightarrow> PList [PDn d] | PList xs \<Rightarrow> PList xs | _ \<Rightarrow> PList [])"
  by (cases ds) (auto simp: additional_data_nodes_argument_def init_additional_data_nodes_def)

lemma from_dict_is_init:
  assumes "from_dict valid as_dict i config = Inr (self, d)"
  shows "\<exists>ts ds f c. init valid i ts ds f c d = Inr self"
  using assms
  by (auto simp: from_dict_def construct_def bind_err_def Let_def
      split: sum.splits if_splits prod.splits)

lemma sample_loaded_from_dict:
  "from_dict sample_valid comparators_only ''s'' sample_registry = Inr (sample_loaded, Map.empty)"
  by (simp add: from_dict_def construct_def init_parameters_def comparators_only_def
      sample_loaded_def pop_def key_defs resolve_all_def init_def sample_valid_def init_tasks_def
      init_additional_data_nodes_def)

subsection \<open>Comparator operations\<close>

lemma comparators_at_update:
  "comparators_at (PDefaultDict (AList.update k (PList xs) kvs)) k' =
     (if k' = k then xs else comparators_at (PDefaultDict kvs) k')"
  by (simp add: comparators_at_def AList.update_conv')

lemma add_comparator_defaulting:
  assumes "list_defaulting (comparators self)"
  shows "\<exists>s. add_comparator self key f = Inr s \<and> list_defaulting (comparators s)
           \<and> contains (comparators s) key = Inr True
           \<and> comparators_at (comparators s) key = comparators_at (comparators self) key @ [f]"
proof -
  obtain kvs where c: "comparators self = PDefaultDict kvs"
    and l: "list_all (\<lambda>kv. list_typed (snd kv)) kvs"
    using assms by (auto simp: list_defaulting_def split: pyval.splits)
  show ?thesis
  proof (cases "map_of kvs key")
    case None
    then show ?thesis
      using c l
      by (simp add: add_comparator_def list_defaulting_def list_all_update list_typed_def
          comparators_at_update AList.update_conv') (simp add: comparators_at_def)
  next
    case (Some v)
    then have "(key, v) \<in> set kvs" by (rule map_of_SomeD)
    then obtain xs where v: "v = PList xs"
      using l by (auto simp: list_all_iff list_typed_iff)
    show ?thesis
      using c l Some v
      by (simp add: add_comparator_def list_defaulting_def list_all_update list_typed_def
          comparators_at_update AList.update_conv') (simp add: comparators_at_def)
  qed
qed

lemma read_comparators_present:
  assumes "list_defaulting (comparators s)" "contains (comparators s) key = Inr True"
  shows "read_comparators s key = Inr (PList (comparators_at (comparators s) key), s)"
proof -
  obtain kvs where c: "comparators s = PDefaultDict kvs"
    and l: "list_all (\<lambda>kv. list_typed (snd kv)) kvs"
    using assms(1) by (auto simp: list_defaulting_def split: pyval.splits)
  obtain v where m: "map_of kvs key = Some v" using assms(2) c by auto
  then have "(key, v) \<in> set kvs" by (rule map_of_SomeD)
  then obtain xs where v: "v = PList xs"
    using l by (auto simp: list_all_iff list_typed_iff)
  have "s\<lparr>comparators := PDefaultDict kvs\<rparr> = s" using c by simp
  then show ?thesis
    using c m v by (simp add: read_comparators_def comparators_at_def)
qed

lemma read_comparators_absent:
  assumes "list_defaulting (comparators s)" "contains (comparators s) key = Inr False"
  shows "\<exists>s'. read_comparators s key = Inr (PList [], s')"
proof -
  obtain kvs where c: "comparators s = PDefaultDict kvs"
    using assms(1) by (auto simp: list_defaulting_def split: pyval.splits)
  show ?thesis using c assms(2) by (simp add: read_comparators_def)
qed

lemma delete_comparator_defaulting:
  assumes "list_defaulting (comparators self)"
  shows "\<exists>s. delete_comparator self key = Inr s \<and> list_defaulting (comparators s)
           \<and> contains (comparators s) key = Inr False
           \<and> (contains (comparators self) key = Inr False \<longrightarrow> s = self)"
proof -
  obtain kvs where c: "comparators self = PDefaultDict kvs"
    and l: "list_all (\<lambda>kv. list_typed (snd kv)) kvs"
    using assms by (auto simp: list_defaulting_def split: pyval.splits)
  show ?thesis
    using c l
    by (auto simp: delete_comparator_def list_defaulting_def list_all_delete AList.delete_conv')
qed

lemma add_comparator_keys:
  assumes "comparator_keys_valid valid (comparators self)" "add_comparator self k cmp = Inr s"
  shows "comparator_keys_valid valid (comparators s) \<longleftrightarrow> valid k"
proof (cases "comparators self")
  case (PDict kvs)
  then show ?thesis
    using assms
    by (auto simp: add_comparator_def comparator_keys_valid_def keys_update_iff bind_err_def
        split: option.splits pyval.splits)
next
  case (PDefaultDict kvs)
  then show ?thesis
    using assms
    by (auto simp: add_comparator_def comparator_keys_valid_def keys_update_iff list_all_update
        split: option.splits pyval.splits)
qed (use assms in \<open>simp_all add: add_comparator_def\<close>)

lemma delete_comparator_keys:
  assumes "comparator_keys_valid valid (comparators self)" "delete_comparator self k = Inr s"
  shows "comparator_keys_valid valid (comparators s)"
proof (cases "comparators self")
  case (PDict kvs)
  then show ?thesis
    using assms
    by (auto simp: delete_comparator_def comparator_keys_valid_def list_all_delete
        split: if_splits)
next
  case (PDefaultDict kvs)
  then show ?thesis
    using assms
    by (auto simp: delete_comparator_def comparator_keys_valid_def list_all_delete
        split: if_splits)
qed (use assms in \<open>auto simp: delete_comparator_def comparator_keys_valid_def split: if_splits\<close>)

lemma add_comparator_frame:
  assumes "add_comparator self k c = Inr self'"
  shows "tasks self' = tasks self" "additional_data_nodes self' = additional_data_nodes self"
  using assms by (auto simp: add_comparator_def bind_err_def split: sum.splits pyval.splits prod.splits)

lemma delete_comparator_frame:
  assumes "delete_comparator self k = Inr self'"
  shows "tasks self' = tasks self" "additional_data_nodes self' = additional_data_nodes self"
  using assms by (auto simp: delete_comparator_def bind_err_def split: sum.splits if_splits)

lemma merged_list_typed:
  "list_typed cur \<Longrightarrow> keeps_list incoming fallback \<Longrightarrow> list_typed (spec_merged_field incoming cur fallback)"
  by (auto simp: keeps_list_def spec_merged_field_def list_typed_def split: option.splits pyval.splits)

lemma comparators_at_sample: "comparators_at (comparators sample_config) ''A'' = [PCallable 1]"
  by (simp add: sample_config_def comparators_at_def del: One_nat_def)

lemma sample_list_defaulting: "list_defaulting (comparators sample_config)"
  by (simp add: sample_config_def list_defaulting_def list_typed_def)

subsection \<open>Resolution of references\<close>

lemma resolved_Nil [simp]: "resolved sec [] = []"
  by (simp add: resolved_def)

lemma resolved_Cons:
  "resolved sec (k # ks) = (case sec k of None \<Rightarrow> resolved sec ks | Some c \<Rightarrow> c # resolved sec ks)"
  by (simp add: resolved_def split: option.splits)

lemma resolved_filter:
  "resolved sec ids = map (\<lambda>k. the (sec k)) (filter (\<lambda>k. sec k \<noteq> None) ids)"
  by (induction ids) (auto simp: resolved_Cons)

lemma resolve_loop_ids:
  "resolve_loop sec entries acc (map PStr ids)
     = Inr (acc @ concat (map entries (resolved sec ids)))"
  by (induction ids arbitrary: acc) (auto simp: section_get_def resolved_Cons split: option.splits)

lemma resolve_all_ids:
  assumes "id_list e ids"
  shows "resolve_all sec entries (case e of None \<Rightarrow> PNone | Some v \<Rightarrow> v)
           = Inr (concat (map entries (resolved sec ids)))"
proof (cases e)
  case None
  then show ?thesis using assms by (simp add: resolve_all_def)
next
  case (Some v)
  then have v: "v = PList (map PStr ids)" using assms by simp
  show ?thesis
    using Some v by (cases "ids = []") (simp_all add: resolve_all_def resolve_loop_ids)
qed

lemma resolve_loop_objects:
  "list_all (\<lambda>k. hashable k \<and> (case k of PStr s \<Rightarrow> False | _ \<Rightarrow> True)) keys
     \<Longrightarrow> resolve_loop sec entries acc keys = Inr acc"
  by (induction keys arbitrary: acc) (auto simp: section_get_def split: pyval.splits)

lemma resolve_all_objects:
  "list_all (\<lambda>k. hashable k \<and> (case k of PStr s \<Rightarrow> False | _ \<Rightarrow> True)) keys
     \<Longrightarrow> resolve_all sec entries (PList keys) = Inr []"
  by (simp add: resolve_all_def resolve_loop_objects)

subsection \<open>The two branches of deserialization\<close>

lemma bind_err_assoc:
  "bind_err (bind_err m f) g = bind_err m (\<lambda>x. bind_err (f x) g)"
  by (cases m) simp_all

lemma from_dict_new_shape:
  assumes "new_shape as_dict"
  shows "from_dict valid as_dict i config =
     bind_err (resolve_all (task_configs config) (\<lambda>tc. [PTask tc])
                 (case as_dict TASKS_KEY of None \<Rightarrow> PNone | Some v \<Rightarrow> v))
       (\<lambda>ts. bind_err (resolve_all (data_node_configs_section config) (\<lambda>dc. [PDn dc])
                 (case as_dict ADDITIONAL_DATA_NODES_KEY of None \<Rightarrow> PNone | Some v \<Rightarrow> v))
          (\<lambda>ds. bind_err (construct valid i (PList ts) (PList ds)
                    (case as_dict FREQUENCY_KEY of None \<Rightarrow> PNone | Some v \<Rightarrow> v)
                    (document_comparators as_dict)
                    (without_keys as_dict (popped_keys as_dict)))
             (\<lambda>self. Inr (self, without_keys as_dict (popped_keys as_dict)))))"
proof -
  have rest: "without_keys as_dict (popped_keys as_dict)
              = as_dict(ID_KEY := None, TASKS_KEY := None, ADDITIONAL_DATA_NODES_KEY := None,
                  FREQUENCY_KEY := None, COMPARATOR_KEY := None)"
    using assms by (auto simp: without_keys_def popped_keys_def)
  have cond: "((as_dict(ID_KEY := None)) TASKS_KEY \<noteq> None
              \<or> (as_dict(ID_KEY := None)) ADDITIONAL_DATA_NODES_KEY \<noteq> None) = True"
    using assms by (simp add: new_shape_def key_defs)
  show ?thesis
    unfolding rest from_dict_def pop_def Let_def snd_conv cond if_True split_conv
      document_comparators_def
    by (simp add: key_defs bind_err_assoc)
qed

lemma from_dict_legacy_shape:
  assumes "\<not> new_shape as_dict"
  shows "from_dict valid as_dict i config =
     bind_err (resolve_all (pipeline_configs config) (\<lambda>pc. map PTask (pipeline_tasks pc))
                 (case as_dict PIPELINES_KEY of None \<Rightarrow> PNone | Some v \<Rightarrow> v))
       (\<lambda>ts. bind_err (construct valid i (PList ts) (PList [])
                    (case as_dict FREQUENCY_KEY of None \<Rightarrow> PNone | Some v \<Rightarrow> v)
                    (document_comparators as_dict)
                    (without_keys as_dict (popped_keys as_dict)))
             (\<lambda>self. Inr (self, without_keys as_dict (popped_keys as_dict))))"
proof -
  have rest: "without_keys as_dict (popped_keys as_dict)
              = as_dict(ID_KEY := None, PIPELINES_KEY := None,
                  FREQUENCY_KEY := None, COMPARATOR_KEY := None)"
    using assms by (auto simp: without_keys_def popped_keys_def)
  have cond: "((as_dict(ID_KEY := None)) TASKS_KEY \<noteq> None
              \<or> (as_dict(ID_KEY := None)) ADDITIONAL_DATA_NODES_KEY \<noteq> None) = False"
    using assms by (simp add: new_shape_def key_defs)
  show ?thesis
    unfolding rest from_dict_def pop_def Let_def snd_conv cond if_False split_conv
      document_comparators_def
    by (simp add: key_defs bind_err_assoc)
qed

lemma init_tasks_list [simp]: "init_tasks (PList xs) = PList xs"
  by (cases xs) (simp_all add: init_tasks_def)

lemma init_additional_data_nodes_list [simp]: "init_additional_data_nodes (PList xs) = PList xs"
  by (cases xs) (simp_all add: init_additional_data_nodes_def)

lemma from_dict_document:
  assumes "from_dict valid as_dict i config = Inr (self, d)"
  shows "d = without_keys as_dict (popped_keys as_dict)" "raw_properties self = d"
proof -
  have "d = without_keys as_dict (popped_keys as_dict) \<and> raw_properties self = d"
  proof (cases "new_shape as_dict")
    case True
    show ?thesis
      using assms unfolding from_dict_new_shape [OF True]
      by (auto simp: bind_err_def construct_def init_fields split: sum.splits if_splits)
  next
    case False
    show ?thesis
      using assms unfolding from_dict_legacy_shape [OF False]
      by (auto simp: bind_err_def construct_def init_fields split: sum.splits if_splits)
  qed
  then show "d = without_keys as_dict (popped_keys as_dict)" "raw_properties self = d" by simp_all
qed

lemma construct_remaining:
  assumes "as_dict ''self'' = None"
  shows "construct valid i ts ds f c (without_keys as_dict (popped_keys as_dict))
           = init valid i ts ds f c (without_keys as_dict (popped_keys as_dict))"
proof -
  have "\<not> list_ex (\<lambda>k. without_keys as_dict (popped_keys as_dict) k \<noteq> None) init_parameters"
    using assms
    by (cases "new_shape as_dict")
       (auto simp: init_parameters_def without_keys_def popped_keys_def new_shape_def key_defs)
  then show ?thesis by (simp add: construct_def)
qed

lemma from_dict_ids_new:
  assumes "new_shape as_dict"
    "id_list (as_dict TASKS_KEY) t_ids" "id_list (as_dict ADDITIONAL_DATA_NODES_KEY) d_ids"
    "as_dict ''self'' = None"
  shows "from_dict valid as_dict i config =
     bind_err
       (init valid i (PList (map PTask (resolved (task_configs config) t_ids)))
          (PList (map PDn (resolved (data_node_configs_section config) d_ids)))
          (case as_dict FREQUENCY_KEY of None \<Rightarrow> PNone | Some v \<Rightarrow> v)
          (document_comparators as_dict)
          (without_keys as_dict (popped_keys as_dict)))
       (\<lambda>self. Inr (self, without_keys as_dict (popped_keys as_dict)))"
proof -
  have t: "concat (map (\<lambda>tc. [PTask tc]) xs) = map PTask xs" for xs
    by (induction xs) simp_all
  have d: "concat (map (\<lambda>dc. [PDn dc]) xs) = map PDn xs" for xs
    by (induction xs) simp_all
  show ?thesis
    unfolding from_dict_new_shape [OF assms(1)] resolve_all_ids [OF assms(2)]
      resolve_all_ids [OF assms(3)]
    by (simp add: t d construct_remaining [where as_dict = as_dict, OF assms(4)])
qed

lemma from_dict_ids_legacy:
  assumes "\<not> new_shape as_dict" "id_list (as_dict PIPELINES_KEY) p_ids"
    "as_dict ''self'' = None"
  shows "from_dict valid as_dict i config =
     bind_err
       (init valid i
          (PList (map PTask (concat (map pipeline_tasks (resolved (pipeline_configs config) p_ids)))))
          (PList [])
          (case as_dict FREQUENCY_KEY of None \<Rightarrow> PNone | Some v \<Rightarrow> v)
          (document_comparators as_dict)
          (without_keys as_dict (popped_keys as_dict)))
       (\<lambda>self. Inr (self, without_keys as_dict (popped_keys as_dict)))"
proof -
  have p: "concat (map (\<lambda>pc. map PTask (pipeline_tasks pc)) xs)
             = map PTask (concat (map pipeline_tasks xs))" for xs
    by (induction xs) simp_all
  show ?thesis
    unfolding from_dict_legacy_shape [OF assms(1)] resolve_all_ids [OF assms(2)]
    by (simp add: p construct_remaining [where as_dict = as_dict, OF assms(3)])
qed

lemma init_result:
  assumes "valid i" "comparators_argument valid c"
  shows "\<exists>self. init valid i (PList ts) (PList ds) f c p = Inr self
           \<and> tasks self = PList ts \<and> additional_data_nodes self = PList ds
           \<and> frequency self = f \<and> raw_properties self = p"
proof -
  obtain self where s: "init valid i (PList ts) (PList ds) f c p = Inr self"
    using init_succeeds [OF assms] by blast
  show ?thesis
    using s init_fields(1-4) [OF s] by simp
qed

lemma sample_valid_s: "sample_valid ''s''"
  by (simp add: sample_valid_def)

lemma resolved_sample_tasks:
  "resolved (task_configs sample_registry) [''T1'', ''gone'', ''T2''] = [task_T1, task_T2]"
  by (simp add: resolved_Cons sample_registry_def)

lemma resolved_sample_data_nodes:
  "resolved (data_node_configs_section sample_registry) [''nope'', ''C''] = [dn_C]"
  by (simp add: resolved_Cons sample_registry_def)

lemma resolved_sample_pipelines:
  "resolved (pipeline_configs sample_registry) [''P0'', ''P1''] = [pipeline_P1]"
  by (simp add: resolved_Cons sample_registry_def)

lemma mixed_from_dict:
  "from_dict sample_valid mixed_document ''s'' sample_registry = Inr (mixed_loaded, mixed_rest)"
  by (simp add: from_dict_def construct_def init_parameters_def mixed_document_def
      mixed_loaded_def mixed_rest_def pop_def key_defs
      resolve_all_def section_get_def init_def sample_valid_def init_tasks_def
      init_additional_data_nodes_def sample_registry_def fun_eq_iff)

text \<open>A key that names the receiver parameter makes the constructor call fail.\<close>

lemma from_dict_receiver_key:
  "from_dict sample_valid [PIPELINES_KEY \<mapsto> PList [PStr ''P1''], ''self'' \<mapsto> PInt 1] ''s''
     sample_registry = Inl TypeError"
  by (simp add: from_dict_def construct_def init_parameters_def pop_def key_defs resolve_all_def
      section_get_def sample_registry_def)

subsection \<open>Round trip and derived set\<close>

lemma update_with_tasks_tasks:
  "update_with_tasks acc (map PTask ts)
     = Inr (acc \<union> PDn ` (\<Union>t\<in>set ts. set (inputs t) \<union> set (outputs t)))"
  by (induction ts arbitrary: acc) (auto simp: image_Un)

lemma py_set_data_nodes: "py_set (PList (map PDn ds)) = Inr (PDn ` set ds)"
  by (simp add: py_set_def list_all_iff)

lemma update_new_key:
  "k \<notin> fst ` set al \<Longrightarrow> AList.update k v al = al @ [(k, v)]"
  by (induction al) auto

lemma init_comparators_distinct:
  "distinct (map fst kvs) \<Longrightarrow> fst ` set acc \<inter> fst ` set kvs = {}
     \<Longrightarrow> list_all (\<lambda>kv. valid (fst kv)) kvs
     \<Longrightarrow> init_comparators valid acc kvs
           = Inr (acc @ map (\<lambda>kv. (fst kv, added_comparators (snd kv))) kvs)"
proof (induction kvs arbitrary: acc)
  case Nil
  then show ?case by simp
next
  case (Cons kv kvs)
  obtain k v where kv: "kv = (k, v)" by (cases kv)
  have fresh: "k \<notin> fst ` set acc" using Cons.prems(2) kv by auto
  then have none: "map_of acc k = None" by (simp add: map_of_eq_None_iff)
  have disj: "fst ` set (acc @ [(k, added_comparators v)]) \<inter> fst ` set kvs = {}"
    using Cons.prems(1,2) kv by auto
  have "init_comparators valid (acc @ [(k, added_comparators v)]) kvs
          = Inr ((acc @ [(k, added_comparators v)])
                 @ map (\<lambda>kv. (fst kv, added_comparators (snd kv))) kvs)"
    using Cons.prems(1,3) by (intro Cons.IH disj) simp_all
  then show ?case
    using Cons.prems(3) kv none by (simp add: update_new_key [OF fresh])
qed

lemma relist:
  "list_all (\<lambda>kv. list_typed (snd kv)) kvs
     \<Longrightarrow> map (\<lambda>kv. (fst kv, PList (snd kv))) (map (\<lambda>kv. (fst kv, added_comparators (snd kv))) kvs)
           = kvs"
  by (induction kvs) (auto simp: list_typed_iff)

lemma init_defaulting_comparators:
  assumes "valid i" "distinct (map fst kvs)"
    "list_all (\<lambda>kv. valid (fst kv) \<and> list_typed (snd kv)) kvs"
  shows "init valid i (PList ts) (PList ds) f (PDefaultDict kvs) p
           = Inr \<lparr> scenario_id = i, tasks = PList ts, additional_data_nodes = PList ds,
                   frequency = f, comparators = PDefaultDict kvs, raw_properties = p \<rparr>"
proof (cases "kvs = []")
  case True
  then show ?thesis using assms(1) by (simp add: init_def)
next
  case False
  have v: "list_all (\<lambda>kv. valid (fst kv)) kvs" and l: "list_all (\<lambda>kv. list_typed (snd kv)) kvs"
    using assms(3) by (simp_all add: list_all_iff)
  have "init_comparators valid [] kvs
          = Inr (map (\<lambda>kv. (fst kv, added_comparators (snd kv))) kvs)"
    using init_comparators_distinct [OF assms(2) _ v, of "[]"] by simp
  moreover have "map ((\<lambda>kv. (fst kv, PList (snd kv)))
                       \<circ> (\<lambda>kv. (fst kv, added_comparators (snd kv)))) kvs = kvs"
    using relist [OF l] by simp
  ultimately show ?thesis
    using False assms(1) by (simp add: init_def)
qed

lemma resolved_own_ids:
  "list_all (\<lambda>x. sec (ident x) = Some x) xs \<Longrightarrow> resolved sec (map ident xs) = xs"
  by (induction xs) (auto simp: resolved_Cons)

lemma to_dict_reserved:
  assumes "list_all (\<lambda>k. raw_properties S k = None)
             [TASKS_KEY, ADDITIONAL_DATA_NODES_KEY, FREQUENCY_KEY, COMPARATOR_KEY]"
  shows "to_dict S TASKS_KEY = Some (tasks S)"
    "to_dict S ADDITIONAL_DATA_NODES_KEY = Some (additional_data_nodes S)"
    "to_dict S FREQUENCY_KEY = Some (frequency S)"
    "to_dict S COMPARATOR_KEY = Some (comparators S)"
  using assms by (simp_all add: to_dict_def map_add_def key_defs)

lemma reserved_keys_distinct:
  "FREQUENCY_KEY \<noteq> TASKS_KEY" "FREQUENCY_KEY \<noteq> ADDITIONAL_DATA_NODES_KEY"
  "COMPARATOR_KEY \<noteq> TASKS_KEY" "COMPARATOR_KEY \<noteq> ADDITIONAL_DATA_NODES_KEY"
  by (simp_all add: key_defs)

lemma reference_identity_tasks:
  "map reference_identity (map PTask ts) = map PStr (map task_id ts)"
  by (induction ts) simp_all

lemma reference_identity_data_nodes:
  "map reference_identity (map PDn ds) = map PStr (map dn_id ds)"
  by (induction ds) simp_all

lemma sample_config_resolvable:
  "tasks sample_config = PList (map PTask [task_T1, task_T2])"
  "additional_data_nodes sample_config = PList (map PDn [dn_C])"
  "list_all (\<lambda>t. task_configs sample_registry (task_id t) = Some t) [task_T1, task_T2]"
  "list_all (\<lambda>d. data_node_configs_section sample_registry (dn_id d) = Some d) [dn_C]"
  "sample_valid (scenario_id sample_config)"
  "comparators sample_config = PDefaultDict [(''A'', PList [PCallable 1])]"
  "distinct (map fst [(''A'', PList [PCallable 1])])"
  "list_all (\<lambda>kv. sample_valid (fst kv) \<and> list_typed (snd kv)) [(''A'', PList [PCallable 1])]"
  "list_all (\<lambda>k. raw_properties sample_config k = None)
        [TASKS_KEY, ADDITIONAL_DATA_NODES_KEY, FREQUENCY_KEY, COMPARATOR_KEY]"
  "raw_properties sample_config ''self'' = None"
  by (simp_all add: sample_config_def sample_registry_def task_T1_def task_T2_def dn_C_def
      sample_valid_def list_typed_def key_defs del: One_nat_def)

section \<open>Default merge\<close>

text \<open>
  Claim C2. After \<^verbatim>\<open>_update\<close>, each of the four structured fields is the incoming
  document's value when the key is present, the prior value otherwise, and the default
  section's field when that value is null and a default section was supplied. In
  particular a default section with a weekly frequency, a document without a frequency
  key and a current frequency of \<^verbatim>\<open>None\<close> leave the frequency weekly.
\<close>

theorem update_structured_fields:
  "tasks (fst (update rt self as_dict dflt))
     = spec_merged_field (as_dict TASKS_KEY) (tasks self) (map_option tasks dflt)
   \<and> additional_data_nodes (fst (update rt self as_dict dflt))
     = spec_merged_field (as_dict ADDITIONAL_DATA_NODES_KEY) (additional_data_nodes self)
         (map_option additional_data_nodes dflt)
   \<and> frequency (fst (update rt self as_dict dflt))
     = spec_merged_field (as_dict FREQUENCY_KEY) (frequency self) (map_option frequency dflt)
   \<and> comparators (fst (update rt self as_dict dflt))
     = spec_merged_field (as_dict COMPARATOR_KEY) (comparators self)
         (map_option comparators dflt)
   \<and> (frequency d = PFreq WEEKLY \<and> as_dict FREQUENCY_KEY = None \<and> frequency self = PNone
        \<longrightarrow> frequency (fst (update rt self as_dict (Some d))) = PFreq WEEKLY)"
  by (simp add: update_def pop_def spec_merged_field_def key_defs Let_def
      split: option.splits prod.splits)

theorem update_structured_fields_witness:
  "frequency sample_default = PFreq WEEKLY
   \<and> [TASKS_KEY \<mapsto> PNone] FREQUENCY_KEY = None
   \<and> frequency sample_config = PNone
   \<and> frequency (fst (update (\<lambda>v. v) sample_config [TASKS_KEY \<mapsto> PNone] (Some sample_default)))
       = PFreq WEEKLY
   \<and> tasks (fst (update (\<lambda>v. v) sample_config [TASKS_KEY \<mapsto> PNone] (Some sample_default)))
       = PList []"
  using update_structured_fields
    [of "\<lambda>v. v" sample_config "[TASKS_KEY \<mapsto> PNone]" "Some sample_default" sample_default]
  by (simp add: sample_default_def sample_config_def key_defs spec_merged_field_def)

text \<open>
  Claim C3. After \<^verbatim>\<open>_update\<close> with a default section, the property bag is the default
  section's bag (as its \<^verbatim>\<open>properties\<close> accessor reads it) overlaid by the prior bag and
  then by the incoming document's non-reserved keys: for any key an incoming value wins
  over a prior one, and a prior one over the default section's. Without a default
  section the bag is the prior bag overlaid by the incoming non-reserved keys.
\<close>

theorem update_property_bag:
  "raw_properties (fst (update rt self as_dict (Some dflt)))
     = properties rt dflt ++ (raw_properties self ++ non_reserved as_dict)
   \<and> raw_properties (fst (update rt self as_dict None))
     = raw_properties self ++ non_reserved as_dict
   \<and> (non_reserved as_dict k = Some v
        \<longrightarrow> raw_properties (fst (update rt self as_dict (Some dflt))) k = Some v)
   \<and> (non_reserved as_dict k = None \<and> raw_properties self k = Some v
        \<longrightarrow> raw_properties (fst (update rt self as_dict (Some dflt))) k = Some v)
   \<and> (non_reserved as_dict k = None \<and> raw_properties self k = None
        \<longrightarrow> raw_properties (fst (update rt self as_dict (Some dflt))) k = properties rt dflt k)"
proof -
  have rest: "snd (update rt self as_dict d) = non_reserved as_dict
              \<and> raw_properties (fst (update rt self as_dict d))
                  = (case d of Some x \<Rightarrow> properties rt x ++ (raw_properties self ++ snd (update rt self as_dict d))
                             | None \<Rightarrow> raw_properties self ++ snd (update rt self as_dict d))" for d
    by (auto simp: update_def pop_def key_defs Let_def non_reserved_def update_reserved_keys_def
        split: option.splits prod.splits)
  have some: "raw_properties (fst (update rt self as_dict (Some dflt)))
                = properties rt dflt ++ (raw_properties self ++ non_reserved as_dict)"
    using rest [of "Some dflt"] by simp
  have none: "raw_properties (fst (update rt self as_dict None))
                = raw_properties self ++ non_reserved as_dict"
    using rest [of None] by simp
  show ?thesis
    unfolding some none by (auto simp: map_add_def split: option.splits)
qed

theorem update_property_bag_witness:
  "non_reserved [''c'' \<mapsto> PInt 3, TASKS_KEY \<mapsto> PList []] ''c'' = Some (PInt 3)
   \<and> raw_properties (fst (update (\<lambda>v. v) sample_config
        [''c'' \<mapsto> PInt 3, TASKS_KEY \<mapsto> PList []] (Some sample_default))) ''c'' = Some (PInt 3)"
  using update_property_bag
    [of "\<lambda>v. v" sample_config "[''c'' \<mapsto> PInt 3, TASKS_KEY \<mapsto> PList []]" sample_default
        "''c''" "PInt 3"]
  by (simp add: non_reserved_def update_reserved_keys_def key_defs)

section \<open>List-typed reference lists\<close>

text \<open>
  Claim C8, as the code has it. The constructor leaves \<^verbatim>\<open>tasks\<close> and
  \<^verbatim>\<open>additional_data_nodes\<close> lists when its argument is absent or falsy (the empty list),
  one configuration (a one-element list) or a list; \<^verbatim>\<open>_clean\<close> and the comparator
  operations keep them so. \<^verbatim>\<open>_update\<close> keeps a field a list when the incoming document
  has no entry for it, a list, or null together with a default section whose field is a
  list; with an explicit null and no default section it leaves the field null.
\<close>

theorem list_typed_fields:
  "(init valid i ts ds f c p = Inr self0 \<and> tasks_argument ts \<and> additional_data_nodes_argument ds
      \<longrightarrow> tasks self0
            = (case ts of PTask t \<Rightarrow> PList [PTask t] | PList xs \<Rightarrow> PList xs | _ \<Rightarrow> PList [])
          \<and> additional_data_nodes self0
            = (case ds of PDn d \<Rightarrow> PList [PDn d] | PList xs \<Rightarrow> PList xs | _ \<Rightarrow> PList []))
   \<and> tasks (clean self) = PList [] \<and> additional_data_nodes (clean self) = PList []
   \<and> (add_comparator self k cmp = Inr self1
        \<longrightarrow> tasks self1 = tasks self \<and> additional_data_nodes self1 = additional_data_nodes self)
   \<and> (delete_comparator self k = Inr self2
        \<longrightarrow> tasks self2 = tasks self \<and> additional_data_nodes self2 = additional_data_nodes self)
   \<and> (list_typed (tasks self) \<and> keeps_list (as_dict TASKS_KEY) (map_option tasks dflt)
        \<longrightarrow> list_typed (tasks (fst (update rt self as_dict dflt))))
   \<and> (list_typed (additional_data_nodes self)
        \<and> keeps_list (as_dict ADDITIONAL_DATA_NODES_KEY) (map_option additional_data_nodes dflt)
        \<longrightarrow> list_typed (additional_data_nodes (fst (update rt self as_dict dflt))))
   \<and> (as_dict TASKS_KEY = Some PNone \<longrightarrow> tasks (fst (update rt self as_dict None)) = PNone)
   \<and> (as_dict ADDITIONAL_DATA_NODES_KEY = Some PNone
        \<longrightarrow> additional_data_nodes (fst (update rt self as_dict None)) = PNone)"
proof -
  have ctor: "init valid i ts ds f c p = Inr self0 \<and> tasks_argument ts \<and> additional_data_nodes_argument ds
      \<longrightarrow> tasks self0
            = (case ts of PTask t \<Rightarrow> PList [PTask t] | PList xs \<Rightarrow> PList xs | _ \<Rightarrow> PList [])
          \<and> additional_data_nodes self0
            = (case ds of PDn d \<Rightarrow> PList [PDn d] | PList xs \<Rightarrow> PList xs | _ \<Rightarrow> PList [])"
    using init_fields(1,2) [of valid i ts ds f c p self0]
    by (simp add: init_tasks_list_typed init_additional_data_nodes_list_typed)
  have cl: "tasks (clean self) = PList [] \<and> additional_data_nodes (clean self) = PList []"
    by (simp add: clean_def)
  have upd: "list_typed (tasks self) \<and> keeps_list (as_dict TASKS_KEY) (map_option tasks dflt)
        \<longrightarrow> list_typed (tasks (fst (update rt self as_dict dflt)))"
    "list_typed (additional_data_nodes self)
        \<and> keeps_list (as_dict ADDITIONAL_DATA_NODES_KEY) (map_option additional_data_nodes dflt)
        \<longrightarrow> list_typed (additional_data_nodes (fst (update rt self as_dict dflt)))"
    by (simp_all add: update_fields merged_list_typed)
  have null: "as_dict TASKS_KEY = Some PNone \<longrightarrow> tasks (fst (update rt self as_dict None)) = PNone"
    "as_dict ADDITIONAL_DATA_NODES_KEY = Some PNone
        \<longrightarrow> additional_data_nodes (fst (update rt self as_dict None)) = PNone"
    by (simp_all add: update_fields spec_merged_field_def)
  show ?thesis
    using ctor cl upd null add_comparator_frame [of self k cmp self1]
      delete_comparator_frame [of self k self2]
    by blast
qed

theorem list_typed_fields_witness:
  "init sample_valid ''s'' (PList [PTask task_T1, PTask task_T2]) (PDn dn_C) PNone
     (PDict [(''A'', PCallable 1)]) [''b'' \<mapsto> PInt 2, ''c'' \<mapsto> PInt 2] = Inr sample_config
   \<and> tasks_argument (PList [PTask task_T1, PTask task_T2])
   \<and> additional_data_nodes_argument (PDn dn_C)
   \<and> add_comparator sample_config ''A'' (PCallable 2)
       = Inr (sample_config\<lparr>comparators :=
                PDefaultDict [(''A'', PList [PCallable 1, PCallable 2])]\<rparr>)
   \<and> delete_comparator sample_config ''A'' = Inr (sample_config\<lparr>comparators := PDefaultDict []\<rparr>)
   \<and> list_typed (tasks sample_config)
   \<and> keeps_list (null_lists TASKS_KEY) (map_option tasks (Some sample_default))
   \<and> list_typed (additional_data_nodes sample_config)
   \<and> keeps_list (null_lists ADDITIONAL_DATA_NODES_KEY)
       (map_option additional_data_nodes (Some sample_default))
   \<and> null_lists TASKS_KEY = Some PNone
   \<and> null_lists ADDITIONAL_DATA_NODES_KEY = Some PNone
   \<and> tasks sample_config = PList [PTask task_T1, PTask task_T2]
   \<and> additional_data_nodes sample_config = PList [PDn dn_C]
   \<and> list_typed (tasks (fst (update (\<lambda>v. v) sample_config null_lists (Some sample_default))))
   \<and> list_typed (additional_data_nodes
        (fst (update (\<lambda>v. v) sample_config null_lists (Some sample_default))))
   \<and> tasks (fst (update (\<lambda>v. v) sample_config null_lists None)) = PNone"
proof -
  have h1: "init sample_valid ''s'' (PList [PTask task_T1, PTask task_T2]) (PDn dn_C) PNone
     (PDict [(''A'', PCallable 1)]) [''b'' \<mapsto> PInt 2, ''c'' \<mapsto> PInt 2] = Inr sample_config"
    by (rule sample_config_constructed)
  have h2: "tasks_argument (PList [PTask task_T1, PTask task_T2])"
    "additional_data_nodes_argument (PDn dn_C)"
    by (simp_all add: tasks_argument_def additional_data_nodes_argument_def)
  have h3: "add_comparator sample_config ''A'' (PCallable 2)
       = Inr (sample_config\<lparr>comparators :=
                PDefaultDict [(''A'', PList [PCallable 1, PCallable 2])]\<rparr>)"
    by (simp add: add_comparator_def sample_config_def del: One_nat_def)
  have h4: "delete_comparator sample_config ''A''
       = Inr (sample_config\<lparr>comparators := PDefaultDict []\<rparr>)"
    by (simp add: delete_comparator_def sample_config_def AList.delete_eq del: One_nat_def)
  have h5: "list_typed (tasks sample_config)" "list_typed (additional_data_nodes sample_config)"
    by (simp_all add: sample_config_def list_typed_def)
  have h6: "keeps_list (null_lists TASKS_KEY) (map_option tasks (Some sample_default))"
    "keeps_list (null_lists ADDITIONAL_DATA_NODES_KEY)
       (map_option additional_data_nodes (Some sample_default))"
    "null_lists TASKS_KEY = Some PNone" "null_lists ADDITIONAL_DATA_NODES_KEY = Some PNone"
    by (simp_all add: null_lists_def keeps_list_def sample_default_def list_typed_def key_defs)
  have h7: "tasks sample_config = PList [PTask task_T1, PTask task_T2]"
    "additional_data_nodes sample_config = PList [PDn dn_C]"
    by (simp_all add: sample_config_def)
  show ?thesis
    using h1 h2 h3 h4 h5 h6 h7
      list_typed_fields [of sample_valid "''s''" "PList [PTask task_T1, PTask task_T2]"
        "PDn dn_C" PNone "PDict [(''A'', PCallable 1)]" "[''b'' \<mapsto> PInt 2, ''c'' \<mapsto> PInt 2]"
        sample_config sample_config "''A''" "PCallable 2"
        "sample_config\<lparr>comparators :=
                PDefaultDict [(''A'', PList [PCallable 1, PCallable 2])]\<rparr>"
        "sample_config\<lparr>comparators := PDefaultDict []\<rparr>"
        null_lists "Some sample_default" "\<lambda>v. v"]
    by blast
qed

text \<open>
  Claim C8 as stated fails: \<^verbatim>\<open>_update\<close> with a document carrying an explicit null for
  the tasks key and no default section leaves \<^verbatim>\<open>tasks\<close> null.
\<close>

theorem list_typed_fields_counterexample:
  "init sample_valid ''s'' (PList [PTask task_T1, PTask task_T2]) (PDn dn_C) PNone
     (PDict [(''A'', PCallable 1)]) [''b'' \<mapsto> PInt 2, ''c'' \<mapsto> PInt 2] = Inr sample_config
   \<and> tasks (fst (update (\<lambda>v. v) sample_config [TASKS_KEY \<mapsto> PNone] None)) = PNone
   \<and> \<not> list_typed (tasks (fst (update (\<lambda>v. v) sample_config [TASKS_KEY \<mapsto> PNone] None)))"
  by (intro conjI, rule sample_config_constructed)
     (simp_all add: update_fields spec_merged_field_def list_typed_def)

section \<open>Comparators\<close>

text \<open>
  Claim C6, as the code has it. The constructor builds a list-defaulting mapping. On
  such a mapping \<^verbatim>\<open>add_comparator(key, f1)\<close> followed by \<^verbatim>\<open>add_comparator(key, f2)\<close>
  leaves at the key the list it held before (empty when the key was absent) followed by
  \<^verbatim>\<open>f1, f2\<close>; \<^verbatim>\<open>delete_comparator(key)\<close> removes the entry, changes nothing when the
  key is absent, and a later read of the key yields the empty list.
\<close>

theorem comparator_operations:
  "(init valid i ts ds f c p = Inr self0 \<longrightarrow> list_defaulting (comparators self0))
   \<and> (list_defaulting (comparators self) \<longrightarrow>
        (\<exists>s1 s2. add_comparator self key f1 = Inr s1 \<and> add_comparator s1 key f2 = Inr s2
            \<and> list_defaulting (comparators s2)
            \<and> read_comparators s2 key
                = Inr (PList (comparators_at (comparators self) key @ [f1, f2]), s2))
        \<and> (\<exists>s3 s4. delete_comparator self key = Inr s3
            \<and> list_defaulting (comparators s3)
            \<and> contains (comparators s3) key = Inr False
            \<and> (contains (comparators self) key = Inr False \<longrightarrow> s3 = self)
            \<and> read_comparators s3 key = Inr (PList [], s4)))"
proof (intro conjI impI)
  assume "init valid i ts ds f c p = Inr self0"
  then show "list_defaulting (comparators self0)" by (rule init_list_defaulting)
next
  assume l: "list_defaulting (comparators self)"
  obtain s1 where s1: "add_comparator self key f1 = Inr s1" "list_defaulting (comparators s1)"
    "comparators_at (comparators s1) key = comparators_at (comparators self) key @ [f1]"
    using add_comparator_defaulting [OF l] by blast
  obtain s2 where s2: "add_comparator s1 key f2 = Inr s2" "list_defaulting (comparators s2)"
    "contains (comparators s2) key = Inr True"
    "comparators_at (comparators s2) key = comparators_at (comparators s1) key @ [f2]"
    using add_comparator_defaulting [OF s1(2)] by blast
  have "read_comparators s2 key
          = Inr (PList (comparators_at (comparators self) key @ [f1, f2]), s2)"
    using read_comparators_present [OF s2(2) s2(3)] s2(4) s1(3) by simp
  then show "\<exists>s1 s2. add_comparator self key f1 = Inr s1 \<and> add_comparator s1 key f2 = Inr s2
            \<and> list_defaulting (comparators s2)
            \<and> read_comparators s2 key
                = Inr (PList (comparators_at (comparators self) key @ [f1, f2]), s2)"
    using s1(1) s2(1) s2(2) by blast
next
  assume l: "list_defaulting (comparators self)"
  obtain s3 where s3: "delete_comparator self key = Inr s3" "list_defaulting (comparators s3)"
    "contains (comparators s3) key = Inr False"
    "contains (comparators self) key = Inr False \<longrightarrow> s3 = self"
    using delete_comparator_defaulting [OF l] by blast
  obtain s4 where "read_comparators s3 key = Inr (PList [], s4)"
    using read_comparators_absent [OF s3(2) s3(3)] by blast
  then show "\<exists>s3 s4. delete_comparator self key = Inr s3
            \<and> list_defaulting (comparators s3)
            \<and> contains (comparators s3) key = Inr False
            \<and> (contains (comparators self) key = Inr False \<longrightarrow> s3 = self)
            \<and> read_comparators s3 key = Inr (PList [], s4)"
    using s3 by blast
qed

theorem comparator_operations_witness:
  "init sample_valid ''s'' (PList [PTask task_T1, PTask task_T2]) (PDn dn_C) PNone
     (PDict [(''A'', PCallable 1)]) [''b'' \<mapsto> PInt 2, ''c'' \<mapsto> PInt 2] = Inr sample_config
   \<and> list_defaulting (comparators sample_config)
   \<and> (\<exists>s1 s2. add_comparator sample_config ''A'' (PCallable 2) = Inr s1
         \<and> add_comparator s1 ''A'' (PCallable 3) = Inr s2
         \<and> read_comparators s2 ''A'' = Inr (PList [PCallable 1, PCallable 2, PCallable 3], s2))
   \<and> (\<exists>s3 s4. delete_comparator sample_config ''A'' = Inr s3
         \<and> contains (comparators s3) ''A'' = Inr False
         \<and> read_comparators s3 ''A'' = Inr (PList [], s4))"
proof -
  have h1: "init sample_valid ''s'' (PList [PTask task_T1, PTask task_T2]) (PDn dn_C) PNone
     (PDict [(''A'', PCallable 1)]) [''b'' \<mapsto> PInt 2, ''c'' \<mapsto> PInt 2] = Inr sample_config"
    by (rule sample_config_constructed)
  have h2: "list_defaulting (comparators sample_config)"
    by (rule sample_list_defaulting)
  have e: "comparators_at (comparators sample_config) ''A'' @ [PCallable 2, PCallable 3]
             = [PCallable 1, PCallable 2, PCallable 3]"
    by (simp add: comparators_at_sample del: One_nat_def)
  show ?thesis
    using h1 h2 e
      comparator_operations [of sample_valid "''s''" "PList [PTask task_T1, PTask task_T2]"
        "PDn dn_C" PNone "PDict [(''A'', PCallable 1)]" "[''b'' \<mapsto> PInt 2, ''c'' \<mapsto> PInt 2]"
        sample_config sample_config "''A''" "PCallable 2" "PCallable 3"]
    by (metis (no_types, lifting))
qed

text \<open>
  Claim C6 as stated fails: with an entry already at the key the two additions yield
  three comparators, and after \<^verbatim>\<open>_clean\<close> the mapping is a plain dict, on which adding
  at an absent key and reading after a deletion raise \<^verbatim>\<open>KeyError\<close>.
\<close>

theorem comparator_operations_counterexample:
  "init sample_valid ''s'' (PList [PTask task_T1, PTask task_T2]) (PDn dn_C) PNone
     (PDict [(''A'', PCallable 1)]) [''b'' \<mapsto> PInt 2, ''c'' \<mapsto> PInt 2] = Inr sample_config
   \<and> map_sum id fst
        (bind_err (add_comparator sample_config ''A'' (PCallable 2))
           (\<lambda>s1. bind_err (add_comparator s1 ''A'' (PCallable 3))
              (\<lambda>s2. read_comparators s2 ''A'')))
       = Inr (PList [PCallable 1, PCallable 2, PCallable 3])
   \<and> PList [PCallable 1, PCallable 2, PCallable 3] \<noteq> PList [PCallable 2, PCallable 3]
   \<and> add_comparator (clean sample_config) ''A'' (PCallable 2) = Inl KeyError
   \<and> bind_err (delete_comparator (clean sample_config) ''A'')
        (\<lambda>s. read_comparators s ''A'') = Inl KeyError"
  by (intro conjI, rule sample_config_constructed)
     (simp_all add: add_comparator_def read_comparators_def delete_comparator_def clean_def
        sample_config_def)

text \<open>
  Claim C7, as the code has it. The constructor, and with it \<^verbatim>\<open>_from_dict\<close>, leaves
  only validated keys in the comparators mapping; \<^verbatim>\<open>_clean\<close> and
  \<^verbatim>\<open>delete_comparator\<close> keep that. \<^verbatim>\<open>add_comparator\<close> and \<^verbatim>\<open>_update\<close> validate
  nothing: the keys stay valid after \<^verbatim>\<open>add_comparator\<close> with a key that passes the rule,
  and after \<^verbatim>\<open>_update\<close> when the keys of the incoming mapping and of the default
  section's mapping do.
\<close>

theorem validated_comparator_keys:
  "(init valid i ts ds f c p = Inr self0 \<longrightarrow> comparator_keys_valid valid (comparators self0))
   \<and> (from_dict valid doc i config = Inr (self3, d)
        \<longrightarrow> comparator_keys_valid valid (comparators self3))
   \<and> comparator_keys_valid valid (comparators (clean self))
   \<and> (comparator_keys_valid valid (comparators self) \<and> delete_comparator self k = Inr self2
        \<longrightarrow> comparator_keys_valid valid (comparators self2))
   \<and> (comparator_keys_valid valid (comparators self) \<and> valid k
        \<and> add_comparator self k cmp = Inr self1
        \<longrightarrow> comparator_keys_valid valid (comparators self1))
   \<and> (comparator_keys_valid valid (comparators self)
        \<and> (case as_dict COMPARATOR_KEY of Some v \<Rightarrow> comparator_keys_valid valid v | None \<Rightarrow> True)
        \<and> (case dflt of Some dc \<Rightarrow> comparator_keys_valid valid (comparators dc) | None \<Rightarrow> True)
        \<longrightarrow> comparator_keys_valid valid (comparators (fst (update rt self as_dict dflt))))"
proof -
  have a: "init valid i ts ds f c p = Inr self0 \<longrightarrow> comparator_keys_valid valid (comparators self0)"
    using init_keys_valid by blast
  have b: "from_dict valid doc i config = Inr (self3, d)
        \<longrightarrow> comparator_keys_valid valid (comparators self3)"
    using from_dict_is_init init_keys_valid by blast
  have c: "comparator_keys_valid valid (comparators (clean self))"
    by (simp add: clean_def comparator_keys_valid_def)
  have d: "comparator_keys_valid valid (comparators self) \<and> delete_comparator self k = Inr self2
        \<longrightarrow> comparator_keys_valid valid (comparators self2)"
    using delete_comparator_keys by blast
  have e: "comparator_keys_valid valid (comparators self) \<and> valid k
        \<and> add_comparator self k cmp = Inr self1
        \<longrightarrow> comparator_keys_valid valid (comparators self1)"
    using add_comparator_keys by blast
  have f: "comparator_keys_valid valid (comparators self)
        \<and> (case as_dict COMPARATOR_KEY of Some v \<Rightarrow> comparator_keys_valid valid v | None \<Rightarrow> True)
        \<and> (case dflt of Some dc \<Rightarrow> comparator_keys_valid valid (comparators dc) | None \<Rightarrow> True)
        \<longrightarrow> comparator_keys_valid valid (comparators (fst (update rt self as_dict dflt)))"
    by (auto simp: update_fields spec_merged_field_def Let_def split: option.splits)
  show ?thesis using a b c d e f by blast
qed

theorem validated_comparator_keys_witness:
  "init sample_valid ''s'' (PList [PTask task_T1, PTask task_T2]) (PDn dn_C) PNone
     (PDict [(''A'', PCallable 1)]) [''b'' \<mapsto> PInt 2, ''c'' \<mapsto> PInt 2] = Inr sample_config
   \<and> from_dict sample_valid comparators_only ''s'' sample_registry = Inr (sample_loaded, Map.empty)
   \<and> comparator_keys_valid sample_valid (comparators sample_config)
   \<and> delete_comparator sample_config ''A'' = Inr (sample_config\<lparr>comparators := PDefaultDict []\<rparr>)
   \<and> add_comparator sample_config ''A'' (PCallable 2)
       = Inr (sample_config\<lparr>comparators := PDefaultDict [(''A'', PList [PCallable 1, PCallable 2])]\<rparr>)
   \<and> sample_valid ''A''
   \<and> (case comparators_only COMPARATOR_KEY of
         Some v \<Rightarrow> comparator_keys_valid sample_valid v | None \<Rightarrow> True)
   \<and> (case Some sample_default of
         Some dc \<Rightarrow> comparator_keys_valid sample_valid (comparators dc) | None \<Rightarrow> True)
   \<and> comparator_keys_valid sample_valid (comparators sample_loaded)
   \<and> comparator_keys_valid sample_valid
        (comparators (sample_config\<lparr>comparators := PDefaultDict []\<rparr>))
   \<and> comparator_keys_valid sample_valid
        (comparators (sample_config\<lparr>comparators :=
            PDefaultDict [(''A'', PList [PCallable 1, PCallable 2])]\<rparr>))
   \<and> comparator_keys_valid sample_valid
        (comparators (fst (update (\<lambda>v. v) sample_config comparators_only (Some sample_default))))"
proof -
  have h1: "init sample_valid ''s'' (PList [PTask task_T1, PTask task_T2]) (PDn dn_C) PNone
     (PDict [(''A'', PCallable 1)]) [''b'' \<mapsto> PInt 2, ''c'' \<mapsto> PInt 2] = Inr sample_config"
    by (rule sample_config_constructed)
  have h2: "from_dict sample_valid comparators_only ''s'' sample_registry
              = Inr (sample_loaded, Map.empty)"
    by (rule sample_loaded_from_dict)
  have h3: "comparator_keys_valid sample_valid (comparators sample_config)" "sample_valid ''A''"
    by (simp_all add: comparator_keys_valid_def sample_config_def sample_valid_def)
  have h4: "delete_comparator sample_config ''A''
       = Inr (sample_config\<lparr>comparators := PDefaultDict []\<rparr>)"
    by (simp add: delete_comparator_def sample_config_def AList.delete_eq del: One_nat_def)
  have h5: "add_comparator sample_config ''A'' (PCallable 2)
       = Inr (sample_config\<lparr>comparators := PDefaultDict [(''A'', PList [PCallable 1, PCallable 2])]\<rparr>)"
    by (simp add: add_comparator_def sample_config_def del: One_nat_def)
  have h6: "case comparators_only COMPARATOR_KEY of
         Some v \<Rightarrow> comparator_keys_valid sample_valid v | None \<Rightarrow> True"
    "case Some sample_default of
         Some dc \<Rightarrow> comparator_keys_valid sample_valid (comparators dc) | None \<Rightarrow> True"
    by (simp_all add: comparators_only_def comparator_keys_valid_def sample_valid_def
        sample_default_def)
  show ?thesis
    using h1 h2 h3 h4 h5 h6
      validated_comparator_keys [of sample_valid "''s''" "PList [PTask task_T1, PTask task_T2]"
        "PDn dn_C" PNone "PDict [(''A'', PCallable 1)]" "[''b'' \<mapsto> PInt 2, ''c'' \<mapsto> PInt 2]"
        sample_config comparators_only sample_registry sample_loaded Map.empty
        sample_config "''A''" "sample_config\<lparr>comparators := PDefaultDict []\<rparr>"
        "PCallable 2"
        "sample_config\<lparr>comparators := PDefaultDict [(''A'', PList [PCallable 1, PCallable 2])]\<rparr>"
        comparators_only "Some sample_default" "\<lambda>v. v"]
    by blast
qed

text \<open>
  Claim C7 as stated fails: \<^verbatim>\<open>add_comparator\<close> and \<^verbatim>\<open>_update\<close> both store a key that
  does not pass the validation rule.
\<close>

theorem validated_comparator_keys_counterexample:
  "init sample_valid ''s'' (PList [PTask task_T1, PTask task_T2]) (PDn dn_C) PNone
     (PDict [(''A'', PCallable 1)]) [''b'' \<mapsto> PInt 2, ''c'' \<mapsto> PInt 2] = Inr sample_config
   \<and> comparator_keys_valid sample_valid (comparators sample_config)
   \<and> \<not> sample_valid ''not valid''
   \<and> add_comparator sample_config ''not valid'' (PCallable 2)
       = Inr (sample_config\<lparr>comparators :=
                PDefaultDict [(''A'', PList [PCallable 1]), (''not valid'', PList [PCallable 2])]\<rparr>)
   \<and> \<not> comparator_keys_valid sample_valid
         (PDefaultDict [(''A'', PList [PCallable 1]), (''not valid'', PList [PCallable 2])])
   \<and> comparators (fst (update (\<lambda>v. v) sample_config
        [COMPARATOR_KEY \<mapsto> PDict [(''not valid'', PList [PCallable 2])]] None))
       = PDict [(''not valid'', PList [PCallable 2])]
   \<and> \<not> comparator_keys_valid sample_valid (PDict [(''not valid'', PList [PCallable 2])])"
  by (intro conjI, rule sample_config_constructed)
     (simp_all add: update_fields spec_merged_field_def comparator_keys_valid_def sample_valid_def
        sample_config_def add_comparator_def del: One_nat_def)

section \<open>Deserialization\<close>

text \<open>
  Claim C4. A document with neither a tasks nor an additional-data-nodes key and with a
  pipelines key listing identifiers is turned by \<^verbatim>\<open>_from_dict\<close> (for a valid identifier,
  a comparators entry the constructor accepts and no key that names the receiver
  parameter) into an instance whose tasks are the
  concatenation, in the order of the list, of the tasks of the pipelines that resolve,
  whose additional data nodes are empty, and whose \<^verbatim>\<open>_to_dict\<close> has no pipelines key.
\<close>

theorem legacy_pipelines_migrated:
  "as_dict TASKS_KEY = None \<and> as_dict ADDITIONAL_DATA_NODES_KEY = None
     \<and> as_dict PIPELINES_KEY = Some (PList (map PStr p_ids))
     \<and> as_dict ''self'' = None
     \<and> valid i \<and> comparators_argument valid (document_comparators as_dict)
   \<longrightarrow> (\<exists>self d. from_dict valid as_dict i config = Inr (self, d)
          \<and> tasks self
              = PList (map PTask (concat (map pipeline_tasks
                         (resolved (pipeline_configs config) p_ids))))
          \<and> additional_data_nodes self = PList []
          \<and> to_dict self PIPELINES_KEY = None)"
proof
  assume a: "as_dict TASKS_KEY = None \<and> as_dict ADDITIONAL_DATA_NODES_KEY = None
     \<and> as_dict PIPELINES_KEY = Some (PList (map PStr p_ids))
     \<and> as_dict ''self'' = None
     \<and> valid i \<and> comparators_argument valid (document_comparators as_dict)"
  then have legacy: "\<not> new_shape as_dict" and ids: "id_list (as_dict PIPELINES_KEY) p_ids"
    and no_self: "as_dict ''self'' = None"
    by (simp_all add: new_shape_def)
  obtain self where s: "init valid i
          (PList (map PTask (concat (map pipeline_tasks (resolved (pipeline_configs config) p_ids)))))
          (PList [])
          (case as_dict FREQUENCY_KEY of None \<Rightarrow> PNone | Some v \<Rightarrow> v)
          (document_comparators as_dict)
          (without_keys as_dict (popped_keys as_dict)) = Inr self"
      "tasks self = PList (map PTask (concat (map pipeline_tasks (resolved (pipeline_configs config) p_ids))))"
      "additional_data_nodes self = PList []"
      "raw_properties self = without_keys as_dict (popped_keys as_dict)"
    using init_result a by blast
  have "to_dict self PIPELINES_KEY = None"
    using legacy by (simp add: to_dict_def s(4) without_keys_def popped_keys_def map_add_def key_defs)
  then show "\<exists>self d. from_dict valid as_dict i config = Inr (self, d)
          \<and> tasks self
              = PList (map PTask (concat (map pipeline_tasks
                         (resolved (pipeline_configs config) p_ids))))
          \<and> additional_data_nodes self = PList []
          \<and> to_dict self PIPELINES_KEY = None"
    using s by (simp add: from_dict_ids_legacy [OF legacy ids no_self])
qed

theorem legacy_pipelines_migrated_witness:
  "legacy_document TASKS_KEY = None \<and> legacy_document ADDITIONAL_DATA_NODES_KEY = None
   \<and> legacy_document PIPELINES_KEY = Some (PList (map PStr [''P0'', ''P1'']))
   \<and> legacy_document ''self'' = None
   \<and> sample_valid ''s''
   \<and> comparators_argument sample_valid (document_comparators legacy_document)
   \<and> (\<exists>self d. from_dict sample_valid legacy_document ''s'' sample_registry = Inr (self, d)
         \<and> tasks self = PList [PTask task_T1, PTask task_T2]
         \<and> additional_data_nodes self = PList []
         \<and> to_dict self PIPELINES_KEY = None)"
proof -
  have h: "legacy_document TASKS_KEY = None" "legacy_document ADDITIONAL_DATA_NODES_KEY = None"
    "legacy_document PIPELINES_KEY = Some (PList (map PStr [''P0'', ''P1'']))"
    "legacy_document ''self'' = None"
    "comparators_argument sample_valid (document_comparators legacy_document)"
    by (simp_all add: legacy_document_def key_defs comparators_argument_def
        document_comparators_def)
  have t: "map PTask (concat (map pipeline_tasks
             (resolved (pipeline_configs sample_registry) [''P0'', ''P1''])))
           = [PTask task_T1, PTask task_T2]"
    by (simp add: resolved_sample_pipelines) (simp add: pipeline_P1_def)
  show ?thesis
    using h sample_valid_s t
      legacy_pipelines_migrated [of legacy_document "[''P0'', ''P1'']" sample_valid "''s''"
        sample_registry]
    by simp
qed

text \<open>
  Claim C5. \<^verbatim>\<open>_from_dict\<close> raises nothing on an identifier the registry does not hold:
  whatever the registry, a document whose reference entries list identifiers yields
  (for a valid identifier, a comparators entry the constructor accepts and no key that
  names the receiver parameter) an instance whose lists hold exactly the configurations
  of the identifiers that resolve, in the order of the document.
\<close>

theorem unresolved_references_dropped:
  "(id_list (as_dict TASKS_KEY) t_ids \<and> id_list (as_dict ADDITIONAL_DATA_NODES_KEY) d_ids
      \<and> id_list (as_dict PIPELINES_KEY) p_ids
      \<and> as_dict ''self'' = None
      \<and> valid i \<and> comparators_argument valid (document_comparators as_dict)
    \<longrightarrow> (\<exists>self d. from_dict valid as_dict i config = Inr (self, d)
           \<and> tasks self
               = PList (if new_shape as_dict
                        then map PTask (resolved (task_configs config) t_ids)
                        else map PTask (concat (map pipeline_tasks
                               (resolved (pipeline_configs config) p_ids))))
           \<and> additional_data_nodes self
               = PList (if new_shape as_dict
                        then map PDn (resolved (data_node_configs_section config) d_ids)
                        else [])))
   \<and> resolved sec ids = map (\<lambda>k. the (sec k)) (filter (\<lambda>k. sec k \<noteq> None) ids)"
proof (intro conjI impI)
  assume a: "id_list (as_dict TASKS_KEY) t_ids \<and> id_list (as_dict ADDITIONAL_DATA_NODES_KEY) d_ids
      \<and> id_list (as_dict PIPELINES_KEY) p_ids
      \<and> as_dict ''self'' = None
      \<and> valid i \<and> comparators_argument valid (document_comparators as_dict)"
  show "\<exists>self d. from_dict valid as_dict i config = Inr (self, d)
           \<and> tasks self
               = PList (if new_shape as_dict
                        then map PTask (resolved (task_configs config) t_ids)
                        else map PTask (concat (map pipeline_tasks
                               (resolved (pipeline_configs config) p_ids))))
           \<and> additional_data_nodes self
               = PList (if new_shape as_dict
                        then map PDn (resolved (data_node_configs_section config) d_ids)
                        else [])"
  proof (cases "new_shape as_dict")
    case True
    obtain self where "init valid i (PList (map PTask (resolved (task_configs config) t_ids)))
          (PList (map PDn (resolved (data_node_configs_section config) d_ids)))
          (case as_dict FREQUENCY_KEY of None \<Rightarrow> PNone | Some v \<Rightarrow> v)
          (document_comparators as_dict)
          (without_keys as_dict (popped_keys as_dict)) = Inr self"
      "tasks self = PList (map PTask (resolved (task_configs config) t_ids))"
      "additional_data_nodes self = PList (map PDn (resolved (data_node_configs_section config) d_ids))"
      using init_result a by blast
    then show ?thesis
      using True a by (simp add: from_dict_ids_new [of as_dict t_ids d_ids])
  next
    case False
    obtain self where "init valid i
          (PList (map PTask (concat (map pipeline_tasks (resolved (pipeline_configs config) p_ids)))))
          (PList [])
          (case as_dict FREQUENCY_KEY of None \<Rightarrow> PNone | Some v \<Rightarrow> v)
          (document_comparators as_dict)
          (without_keys as_dict (popped_keys as_dict)) = Inr self"
      "tasks self = PList (map PTask (concat (map pipeline_tasks (resolved (pipeline_configs config) p_ids))))"
      "additional_data_nodes self = PList []"
      using init_result a by blast
    then show ?thesis
      using False a by (simp add: from_dict_ids_legacy [of as_dict p_ids])
  qed
next
  show "resolved sec ids = map (\<lambda>k. the (sec k)) (filter (\<lambda>k. sec k \<noteq> None) ids)"
    by (rule resolved_filter)
qed

theorem unresolved_references_dropped_witness:
  "id_list (new_document TASKS_KEY) [''T1'', ''gone'', ''T2'']
   \<and> id_list (new_document ADDITIONAL_DATA_NODES_KEY) [''nope'', ''C'']
   \<and> id_list (new_document PIPELINES_KEY) []
   \<and> new_document ''self'' = None
   \<and> sample_valid ''s''
   \<and> comparators_argument sample_valid (document_comparators new_document)
   \<and> (\<exists>self d. from_dict sample_valid new_document ''s'' sample_registry = Inr (self, d)
         \<and> tasks self = PList [PTask task_T1, PTask task_T2]
         \<and> additional_data_nodes self = PList [PDn dn_C])"
proof -
  have h: "id_list (new_document TASKS_KEY) [''T1'', ''gone'', ''T2'']"
    "id_list (new_document ADDITIONAL_DATA_NODES_KEY) [''nope'', ''C'']"
    "id_list (new_document PIPELINES_KEY) []"
    "new_document ''self'' = None"
    "comparators_argument sample_valid (document_comparators new_document)"
    "new_shape new_document"
    by (simp_all add: new_document_def key_defs comparators_argument_def
        document_comparators_def new_shape_def)
  show ?thesis
    using h sample_valid_s
      unresolved_references_dropped [of new_document "[''T1'', ''gone'', ''T2'']"
        "[''nope'', ''C'']" "[]" sample_valid "''s''" sample_registry
        "task_configs sample_registry" "[]"]
    by (simp add: resolved_sample_tasks resolved_sample_data_nodes)
qed

text \<open>
  Claim C10, as the code has it. \<^verbatim>\<open>_from_dict\<close> leaves its document without the id,
  frequency and comparators keys and, for the new shape, without the tasks and
  additional-data-nodes keys, for the legacy shape without the pipelines key. Every other
  key stays in the document and is copied into the property bag; so does a pipelines key
  of a document of the new shape.
\<close>

theorem from_dict_consumes_document:
  "from_dict valid as_dict i config = Inr (self, d)
   \<longrightarrow> d = without_keys as_dict (popped_keys as_dict)
       \<and> raw_properties self = d
       \<and> (\<forall>k. k \<in> popped_keys as_dict \<longrightarrow> d k = None)
       \<and> (\<forall>k. k \<notin> popped_keys as_dict \<longrightarrow> d k = as_dict k)
       \<and> (new_shape as_dict \<longrightarrow> d PIPELINES_KEY = as_dict PIPELINES_KEY)"
proof
  assume a: "from_dict valid as_dict i config = Inr (self, d)"
  have d: "d = without_keys as_dict (popped_keys as_dict)" and p: "raw_properties self = d"
    using from_dict_document [OF a] by simp_all
  have "new_shape as_dict \<longrightarrow> d PIPELINES_KEY = as_dict PIPELINES_KEY"
    by (simp add: d without_keys_def popped_keys_def key_defs)
  then show "d = without_keys as_dict (popped_keys as_dict)
       \<and> raw_properties self = d
       \<and> (\<forall>k. k \<in> popped_keys as_dict \<longrightarrow> d k = None)
       \<and> (\<forall>k. k \<notin> popped_keys as_dict \<longrightarrow> d k = as_dict k)
       \<and> (new_shape as_dict \<longrightarrow> d PIPELINES_KEY = as_dict PIPELINES_KEY)"
    using d p by (simp add: without_keys_def)
qed

theorem from_dict_consumes_document_witness:
  "from_dict sample_valid mixed_document ''s'' sample_registry = Inr (mixed_loaded, mixed_rest)
   \<and> new_shape mixed_document
   \<and> raw_properties mixed_loaded = mixed_rest
   \<and> mixed_rest ID_KEY = None \<and> mixed_rest TASKS_KEY = None
   \<and> mixed_rest ''x'' = mixed_document ''x''
   \<and> mixed_rest PIPELINES_KEY = mixed_document PIPELINES_KEY"
proof -
  have h: "from_dict sample_valid mixed_document ''s'' sample_registry
             = Inr (mixed_loaded, mixed_rest)"
    by (rule mixed_from_dict)
  have n: "new_shape mixed_document"
    by (simp add: new_shape_def mixed_document_def key_defs)
  have k: "ID_KEY \<in> popped_keys mixed_document" "TASKS_KEY \<in> popped_keys mixed_document"
    "''x'' \<notin> popped_keys mixed_document"
    using n by (simp_all add: popped_keys_def key_defs)
  show ?thesis
    using h n k
      from_dict_consumes_document [of sample_valid mixed_document "''s''" sample_registry
        mixed_loaded mixed_rest]
    by blast
qed

text \<open>
  Claim C10 as stated fails: a pipelines key beside a tasks key is not removed, and a key
  that is no reserved one is still in the document after the call.
\<close>

theorem from_dict_consumes_document_counterexample:
  "from_dict sample_valid mixed_document ''s'' sample_registry = Inr (mixed_loaded, mixed_rest)
   \<and> mixed_document PIPELINES_KEY = Some (PList [PStr ''P1''])
   \<and> mixed_rest PIPELINES_KEY = Some (PList [PStr ''P1''])
   \<and> raw_properties mixed_loaded PIPELINES_KEY = Some (PList [PStr ''P1''])
   \<and> mixed_rest ''x'' = Some (PInt 5)"
  by (intro conjI, rule mixed_from_dict)
     (simp_all add: mixed_document_def mixed_rest_def mixed_loaded_def key_defs)

text \<open>
  Claim C1, as the code has it. \<^verbatim>\<open>_to_dict\<close> hands out the task and data-node
  configurations themselves, not their identifiers. For an instance as the constructor
  builds it, with a valid identifier, references that the registry resolves to
  themselves and no property under a reserved key or named like the receiver
  parameter, \<^verbatim>\<open>_from_dict\<close> gives back the tasks,
  additional data nodes, frequency and comparators once the entries of the serialized
  lists are replaced by their identifiers; applied to the result of \<^verbatim>\<open>_to_dict\<close> as it
  is, it keeps frequency and comparators and leaves both lists empty.
\<close>

theorem serialization_round_trip:
  "tasks S = PList (map PTask ts) \<and> additional_data_nodes S = PList (map PDn ds)
   \<and> list_all (\<lambda>t. task_configs config (task_id t) = Some t) ts
   \<and> list_all (\<lambda>d. data_node_configs_section config (dn_id d) = Some d) ds
   \<and> valid (scenario_id S)
   \<and> comparators S = PDefaultDict kvs \<and> distinct (map fst kvs)
   \<and> list_all (\<lambda>kv. valid (fst kv) \<and> list_typed (snd kv)) kvs
   \<and> list_all (\<lambda>k. raw_properties S k = None)
        [TASKS_KEY, ADDITIONAL_DATA_NODES_KEY, FREQUENCY_KEY, COMPARATOR_KEY]
   \<and> raw_properties S ''self'' = None
   \<longrightarrow> to_dict S TASKS_KEY = Some (tasks S)
       \<and> to_dict S ADDITIONAL_DATA_NODES_KEY = Some (additional_data_nodes S)
       \<and> (\<exists>S' d. from_dict valid (serialize_references (to_dict S)) (scenario_id S) config
                    = Inr (S', d)
            \<and> tasks S' = tasks S \<and> additional_data_nodes S' = additional_data_nodes S
            \<and> frequency S' = frequency S \<and> comparators S' = comparators S)
       \<and> (\<exists>S' d. from_dict valid (to_dict S) (scenario_id S) config = Inr (S', d)
            \<and> tasks S' = PList [] \<and> additional_data_nodes S' = PList []
            \<and> frequency S' = frequency S \<and> comparators S' = comparators S)"
proof (intro impI, elim conjE)
  assume t: "tasks S = PList (map PTask ts)"
    and a: "additional_data_nodes S = PList (map PDn ds)"
    and rt: "list_all (\<lambda>t. task_configs config (task_id t) = Some t) ts"
    and rd: "list_all (\<lambda>d. data_node_configs_section config (dn_id d) = Some d) ds"
    and vi: "valid (scenario_id S)"
    and c: "comparators S = PDefaultDict kvs"
    and dk: "distinct (map fst kvs)"
    and vk: "list_all (\<lambda>kv. valid (fst kv) \<and> list_typed (snd kv)) kvs"
    and pr: "list_all (\<lambda>k. raw_properties S k = None)
        [TASKS_KEY, ADDITIONAL_DATA_NODES_KEY, FREQUENCY_KEY, COMPARATOR_KEY]"
    and ps: "raw_properties S ''self'' = None"
  note td = to_dict_reserved [OF pr]
  let ?D = "to_dict S" and ?E = "serialize_references (to_dict S)"
  have ns: "new_shape ?D" "new_shape ?E"
    by (simp_all add: new_shape_def td serialize_references_def)
  have e: "?E TASKS_KEY = Some (PList (map PStr (map task_id ts)))"
    "?E ADDITIONAL_DATA_NODES_KEY = Some (PList (map PStr (map dn_id ds)))"
    "?E FREQUENCY_KEY = Some (frequency S)" "?E COMPARATOR_KEY = Some (comparators S)"
    by (simp_all add: serialize_references_def td t a reference_identity_tasks
        reference_identity_data_nodes reserved_keys_distinct del: map_map)
  have no_self: "?D ''self'' = None" "?E ''self'' = None"
    using ps by (simp_all add: serialize_references_def to_dict_def map_add_def key_defs)
  have ids: "id_list (?E TASKS_KEY) (map task_id ts)"
    "id_list (?E ADDITIONAL_DATA_NODES_KEY) (map dn_id ds)"
    by (simp_all add: e)
  have by_id: "from_dict valid ?E (scenario_id S) config
      = Inr (\<lparr> scenario_id = scenario_id S, tasks = PList (map PTask ts),
                additional_data_nodes = PList (map PDn ds), frequency = frequency S,
                comparators = PDefaultDict kvs,
                raw_properties = without_keys ?E (popped_keys ?E) \<rparr>,
             without_keys ?E (popped_keys ?E))"
    unfolding from_dict_ids_new [OF ns(2) ids no_self(2)]
    by (simp add: resolved_own_ids [OF rt] resolved_own_ids [OF rd] e document_comparators_def c
        init_defaulting_comparators [OF vi dk vk])
  have objs: "list_all (\<lambda>k. hashable k \<and> (case k of PStr s \<Rightarrow> False | _ \<Rightarrow> True)) (map PTask ts)"
    "list_all (\<lambda>k. hashable k \<and> (case k of PStr s \<Rightarrow> False | _ \<Rightarrow> True)) (map PDn ds)"
    by (simp_all add: list_all_iff)
  have direct: "from_dict valid ?D (scenario_id S) config
      = Inr (\<lparr> scenario_id = scenario_id S, tasks = PList [],
                additional_data_nodes = PList [], frequency = frequency S,
                comparators = PDefaultDict kvs,
                raw_properties = without_keys ?D (popped_keys ?D) \<rparr>,
             without_keys ?D (popped_keys ?D))"
    unfolding from_dict_new_shape [OF ns(1)]
    by (simp add: td t a resolve_all_objects [OF objs(1)] resolve_all_objects [OF objs(2)]
        document_comparators_def c construct_remaining [where as_dict = "to_dict S", OF no_self(1)]
        init_defaulting_comparators [OF vi dk vk])
  show "to_dict S TASKS_KEY = Some (tasks S)
       \<and> to_dict S ADDITIONAL_DATA_NODES_KEY = Some (additional_data_nodes S)
       \<and> (\<exists>S' d. from_dict valid (serialize_references (to_dict S)) (scenario_id S) config
                    = Inr (S', d)
            \<and> tasks S' = tasks S \<and> additional_data_nodes S' = additional_data_nodes S
            \<and> frequency S' = frequency S \<and> comparators S' = comparators S)
       \<and> (\<exists>S' d. from_dict valid (to_dict S) (scenario_id S) config = Inr (S', d)
            \<and> tasks S' = PList [] \<and> additional_data_nodes S' = PList []
            \<and> frequency S' = frequency S \<and> comparators S' = comparators S)"
    unfolding by_id direct by (simp add: td t a c)
qed

theorem serialization_round_trip_witness:
  "tasks sample_config = PList (map PTask [task_T1, task_T2])
   \<and> additional_data_nodes sample_config = PList (map PDn [dn_C])
   \<and> list_all (\<lambda>t. task_configs sample_registry (task_id t) = Some t) [task_T1, task_T2]
   \<and> list_all (\<lambda>d. data_node_configs_section sample_registry (dn_id d) = Some d) [dn_C]
   \<and> sample_valid (scenario_id sample_config)
   \<and> comparators sample_config = PDefaultDict [(''A'', PList [PCallable 1])]
   \<and> distinct (map fst [(''A'', PList [PCallable 1])])
   \<and> list_all (\<lambda>kv. sample_valid (fst kv) \<and> list_typed (snd kv)) [(''A'', PList [PCallable 1])]
   \<and> list_all (\<lambda>k. raw_properties sample_config k = None)
        [TASKS_KEY, ADDITIONAL_DATA_NODES_KEY, FREQUENCY_KEY, COMPARATOR_KEY]
   \<and> raw_properties sample_config ''self'' = None
   \<and> (\<exists>S' d. from_dict sample_valid (serialize_references (to_dict sample_config))
                 (scenario_id sample_config) sample_registry = Inr (S', d)
         \<and> tasks S' = tasks sample_config
         \<and> additional_data_nodes S' = additional_data_nodes sample_config
         \<and> frequency S' = frequency sample_config
         \<and> comparators S' = comparators sample_config)"
  using sample_config_resolvable
    serialization_round_trip [of sample_config "[task_T1, task_T2]" "[dn_C]" sample_registry sample_valid
      "[(''A'', PList [PCallable 1])]"]
  by blast

text \<open>
  Claim C1 as stated fails: the entries of \<^verbatim>\<open>_to_dict\<close> are configuration objects, which
  no section of the registry has as a key, so the composition loses every task and data
  node although each of them resolves.
\<close>

theorem serialization_round_trip_counterexample:
  "tasks sample_config = PList [PTask task_T1, PTask task_T2]
   \<and> additional_data_nodes sample_config = PList [PDn dn_C]
   \<and> task_configs sample_registry (task_id task_T1) = Some task_T1
   \<and> task_configs sample_registry (task_id task_T2) = Some task_T2
   \<and> data_node_configs_section sample_registry (dn_id dn_C) = Some dn_C
   \<and> to_dict sample_config TASKS_KEY = Some (PList [PTask task_T1, PTask task_T2])
   \<and> map_sum id (\<lambda>r. (tasks (fst r), additional_data_nodes (fst r)))
        (from_dict sample_valid (to_dict sample_config) (scenario_id sample_config) sample_registry)
       = Inr (PList [], PList [])"
  by (simp add: from_dict_def construct_def init_parameters_def to_dict_def sample_config_def
      sample_registry_def pop_def key_defs resolve_all_def section_get_def init_def
      sample_valid_def init_tasks_def
      init_additional_data_nodes_def task_T1_def task_T2_def dn_C_def dn_A_def dn_B_def)

section \<open>The derived data-node set\<close>

text \<open>
  Claim C9. The accessors \<^verbatim>\<open>data_node_configs\<close> and \<^verbatim>\<open>data_nodes\<close> return the same
  value and leave the instance as it is; for an instance whose tasks are task
  configurations and whose additional data nodes are data-node configurations the value
  is the set of the additional data nodes and of every task's inputs and outputs, each
  once whatever the number of tasks that refer to it, also when a task has no inputs or
  outputs.
\<close>

theorem derived_data_node_set:
  "data_node_configs self = data_nodes self
   \<and> (tasks self = PList (map PTask ts) \<and> additional_data_nodes self = PList (map PDn ds)
        \<longrightarrow> data_nodes self
              = Inr (PDn ` (set ds \<union> (\<Union>t\<in>set ts. set (inputs t) \<union> set (outputs t))), self))"
  by (auto simp: data_node_configs_def data_nodes_def get_all_unique_data_nodes_def
      py_set_data_nodes update_with_tasks_tasks image_Un)

theorem derived_data_node_set_witness:
  "tasks sample_config = PList (map PTask [task_T1, task_T2])
   \<and> additional_data_nodes sample_config = PList (map PDn [dn_C])
   \<and> inputs task_T1 = [] \<and> outputs task_T1 = [dn_A]
   \<and> inputs task_T2 = [dn_A] \<and> outputs task_T2 = [dn_B]
   \<and> data_nodes sample_config = Inr ({PDn dn_A, PDn dn_B, PDn dn_C}, sample_config)
   \<and> data_node_configs sample_config = Inr ({PDn dn_A, PDn dn_B, PDn dn_C}, sample_config)
   \<and> card {PDn dn_A, PDn dn_B, PDn dn_C} = 3"
proof -
  have h: "tasks sample_config = PList (map PTask [task_T1, task_T2])"
    "additional_data_nodes sample_config = PList (map PDn [dn_C])"
    by (simp_all add: sample_config_def)
  have io: "inputs task_T1 = []" "outputs task_T1 = [dn_A]"
    "inputs task_T2 = [dn_A]" "outputs task_T2 = [dn_B]"
    by (simp_all add: task_T1_def task_T2_def)
  have s: "PDn ` (set [dn_C] \<union> (\<Union>t\<in>set [task_T1, task_T2]. set (inputs t) \<union> set (outputs t)))
             = {PDn dn_A, PDn dn_B, PDn dn_C}"
    by (auto simp: io)
  have c: "card {PDn dn_A, PDn dn_B, PDn dn_C} = 3"
    by (simp add: dn_A_def dn_B_def dn_C_def)
  show ?thesis
    using h io c derived_data_node_set [of sample_config "[task_T1, task_T2]" "[dn_C]"]
    unfolding s by simp
qed

end
